theory Spec2Isabelle
  imports Main "HOL-Library.Sublist" "HOL-Library.Char_ord" "HOL-Library.List_Lexorder"
    "HOL-Library.Multiset"
begin

section \<open>Label paths (the \<^verbatim>\<open>ltree\<close> column type)\<close>

text \<open>
  The \<^verbatim>\<open>Folder.path\<close> column has type \<^verbatim>\<open>ltree\<close>
  (migration \<^verbatim>\<open>20251122153309_enable_ltree\<close>). A value is a sequence of labels.
  The handlers build a path as text and cast it (\<^verbatim>\<open>${newPath}::ltree\<close>), read it back
  as text (\<^verbatim>\<open>path::text\<close>), count its labels (\<^verbatim>\<open>nlevel\<close>), test containment
  (\<^verbatim>\<open><@\<close>, \<^verbatim>\<open>@>\<close>) and order by it.

  Strings are lists of 8-bit characters: the model covers text in the Latin-1 range.
  Timestamps (\<^verbatim>\<open>createdAt\<close>, \<^verbatim>\<open>updatedAt\<close>, set from \<^verbatim>\<open>NOW()\<close>) are left out
  of every row: none of the handlers modelled here reads them.
\<close>

type_synonym ltree = "string list"

text \<open>
  A label is a non-empty run of letters, digits and underscores. (Newer versions of the
  extension also take a hyphen; the handlers replace every hyphen before a cast, so none
  reaches one. The bounds on the length of a label and on the number of labels are far
  above what an id needs and are left out.)
\<close>

definition label_char :: "char \<Rightarrow> bool" where
  "label_char c =
     (let n = (of_char c :: nat) in
        (65 \<le> n \<and> n \<le> 90) \<or> (97 \<le> n \<and> n \<le> 122) \<or> (48 \<le> n \<and> n \<le> 57) \<or> n = 95)"

definition valid_label :: "string \<Rightarrow> bool" where
  "valid_label l = (l \<noteq> [] \<and> list_all label_char l)"

definition valid_ltree :: "ltree \<Rightarrow> bool" where
  "valid_ltree p = list_all valid_label p"

text \<open>Splitting a text at every \<^verbatim>\<open>.\<close>; the pieces of the empty text are one empty piece.\<close>

fun split_dots :: "string \<Rightarrow> string list" where
  "split_dots [] = [[]]"
| "split_dots (c # cs) =
     (if c = CHR ''.'' then [] # split_dots cs
      else (case split_dots cs of [] \<Rightarrow> [[c]] | l # ls \<Rightarrow> (c # l) # ls))"

text \<open>
  The cast \<^verbatim>\<open>text::ltree\<close>: the empty text is the empty path; any other text is split at
  the dots and every piece has to be a label, otherwise the cast raises
  (\<open>None\<close>).
\<close>

definition ltree_in :: "string \<Rightarrow> ltree option" where
  "ltree_in s =
     (if s = [] then Some []
      else if valid_ltree (split_dots s) then Some (split_dots s) else None)"

text \<open>The cast \<^verbatim>\<open>path::text\<close>: the labels joined by dots.\<close>

fun ltree_out :: "ltree \<Rightarrow> string" where
  "ltree_out [] = []"
| "ltree_out [l] = l"
| "ltree_out (l # m # ls) = l @ CHR ''.'' # ltree_out (m # ls)"

definition nlevel :: "ltree \<Rightarrow> int" where
  "nlevel p = int (length p)"

text \<open>\<^verbatim>\<open>a <@ b\<close>: \<open>a\<close> is \<open>b\<close> or a descendant of \<open>b\<close>; \<^verbatim>\<open>a @> b\<close> is the converse.\<close>

definition contained_in :: "ltree \<Rightarrow> ltree \<Rightarrow> bool" where
  "contained_in a b = prefix b a"

definition contains_path :: "ltree \<Rightarrow> ltree \<Rightarrow> bool" where
  "contains_path a b = prefix a b"

section \<open>JavaScript string helpers\<close>

text \<open>\<^verbatim>\<open>s.replace(/-/g, "_")\<close>\<close>

definition replace_hyphens :: "string \<Rightarrow> string" where
  "replace_hyphens s = map (\<lambda>c. if c = CHR ''-'' then CHR ''_'' else c) s"

text \<open>
  \<^verbatim>\<open>s.trim()\<close>: white space and line terminators are removed at both ends. In the
  Latin-1 range these are the code units 9 to 13, 32 and 160.
\<close>

definition is_space :: "char \<Rightarrow> bool" where
  "is_space c = (let n = (of_char c :: nat) in (9 \<le> n \<and> n \<le> 13) \<or> n = 32 \<or> n = 160)"

definition trim :: "string \<Rightarrow> string" where
  "trim s = rev (dropWhile is_space (rev (dropWhile is_space s)))"

section \<open>Rows and the database state\<close>

text \<open>
  The tables of the migrations that the folder and tenant routes touch, with the columns
  the handlers and the constraints read. A table is the list of its rows.
\<close>

datatype UserRole = SUPER_ADMIN | TENANT_ADMIN | USER

record Folder =
  f_id :: string
  f_name :: string
  f_parentId :: "string option"
  f_tenantId :: string
  f_path :: ltree

record File =
  fl_id :: string
  fl_name :: string
  fl_folderId :: string
  fl_tenantId :: string

record FileVersion =
  fv_id :: string
  fv_fileId :: string

record Tenant =
  t_id :: string
  t_name :: string
  t_rootFolderId :: "string option"

record TenantMember =
  m_id :: string
  m_userId :: string
  m_tenantId :: string
  m_role :: UserRole

record database =
  folders :: "Folder list"
  files :: "File list"
  fileVersions :: "FileVersion list"
  tenants :: "Tenant list"
  members :: "TenantMember list"

section \<open>Requests and responses\<close>

text \<open>
  A value of the JSON body: absent, a string, or anything else (a number, an object).
\<close>

datatype jsval = JUndefined | JString string | JOther

text \<open>
  What the handlers read of a request: \<^verbatim>\<open>req.user.id\<close> as set by
  \<^verbatim>\<open>authenticate\<close> (\<open>None\<close> when no user is attached), the route parameters and the
  body. The model covers bodies whose \<^verbatim>\<open>tenantId\<close> is a string or is absent.
\<close>

record request =
  req_user :: "string option"
  params_tenantId :: string
  params_folderId :: string
  body_tenantId :: "string option"
  body_name :: jsval
  body_parentId :: jsval

text \<open>
  The failures the handlers answer with. \<open>StorageFailure\<close> is the \<^verbatim>\<open>catch\<close> block of a
  handler: any exception of a storage call ends there.
\<close>

datatype error =
    AuthRequired
  | TenantIdRequired
  | TenantAccessDenied
  | InsufficientPermissions
  | InvalidInput
  | NotFound
  | DuplicateName
  | CannotDeleteRoot
  | StorageFailure

fun status :: "error \<Rightarrow> nat" where
  "status AuthRequired = 401"
| "status TenantIdRequired = 400"
| "status TenantAccessDenied = 403"
| "status InsufficientPermissions = 403"
| "status InvalidInput = 400"
| "status NotFound = 404"
| "status DuplicateName = 409"
| "status CannotDeleteRoot = 403"
| "status StorageFailure = 500"

section \<open>The middleware \<^verbatim>\<open>requireTenantAccess\<close>\<close>

fun roleHierarchy :: "UserRole \<Rightarrow> nat" where
  "roleHierarchy SUPER_ADMIN = 3"
| "roleHierarchy TENANT_ADMIN = 2"
| "roleHierarchy USER = 1"

text \<open>
  The tenant is \<^verbatim>\<open>req.params.tenantId\<close>; the membership looked up is the one of
  \<^verbatim>\<open>(req.user.id, tenantId)\<close>. On success the handler runs (\<open>Inr\<close> the member's role).
\<close>

definition requireTenantAccess ::
  "database \<Rightarrow> UserRole option \<Rightarrow> request \<Rightarrow> error + UserRole" where
  "requireTenantAccess db requiredRole req =
     (case req_user req of
        None \<Rightarrow> Inl AuthRequired
      | Some uid \<Rightarrow>
          if params_tenantId req = [] then Inl TenantIdRequired
          else
            (case find (\<lambda>m. m_userId m = uid \<and> m_tenantId m = params_tenantId req)
                    (members db) of
               None \<Rightarrow> Inl TenantAccessDenied
             | Some membership \<Rightarrow>
                 (case requiredRole of
                    None \<Rightarrow> Inr (m_role membership)
                  | Some r \<Rightarrow>
                      if roleHierarchy (m_role membership) < roleHierarchy r
                      then Inl InsufficientPermissions
                      else Inr (m_role membership))))"

section \<open>Storage statements\<close>

text \<open>\<^verbatim>\<open>SELECT ... FROM "Folder" WHERE id = ${folderId} AND "tenantId" = ${tenantId}\<close>, first row.\<close>

definition folder_by_id :: "database \<Rightarrow> string \<Rightarrow> string \<Rightarrow> Folder option" where
  "folder_by_id db fid tid = find (\<lambda>f. f_id f = fid \<and> f_tenantId f = tid) (folders db)"

text \<open>\<^verbatim>\<open>folder.findFirst({ where: { name, parentId, tenantId } })\<close>: the names are compared
  with the equality of the \<^verbatim>\<open>TEXT\<close> column.\<close>

definition sibling_named :: "database \<Rightarrow> string \<Rightarrow> string \<Rightarrow> string \<Rightarrow> Folder option" where
  "sibling_named db nm pid tid =
     find (\<lambda>f. f_name f = nm \<and> f_parentId f = Some pid \<and> f_tenantId f = tid) (folders db)"

text \<open>The same with \<^verbatim>\<open>id: { not: folderId }\<close>.\<close>

definition sibling_named_except ::
  "database \<Rightarrow> string \<Rightarrow> string \<Rightarrow> string \<Rightarrow> string \<Rightarrow> Folder option" where
  "sibling_named_except db nm pid tid fid =
     find (\<lambda>f. f_name f = nm \<and> f_parentId f = Some pid \<and> f_tenantId f = tid \<and> f_id f \<noteq> fid)
       (folders db)"

text \<open>
  \<^verbatim>\<open>INSERT INTO "Folder"\<close>. The statement raises (\<open>None\<close>) on the primary key
  \<^verbatim>\<open>Folder_pkey\<close>, on the unique index \<^verbatim>\<open>Folder_parentId_name_tenantId_key\<close> (rows with a
  null \<^verbatim>\<open>parentId\<close> never collide there) and on the foreign keys
  \<^verbatim>\<open>Folder_parentId_fkey\<close> and \<^verbatim>\<open>Folder_tenantId_fkey\<close>.
\<close>

definition insert_folder :: "database \<Rightarrow> Folder \<Rightarrow> database option" where
  "insert_folder db row =
     (if list_ex (\<lambda>f. f_id f = f_id row) (folders db) then None
      else if f_parentId row \<noteq> None \<and>
              list_ex (\<lambda>f. f_parentId f = f_parentId row \<and> f_name f = f_name row \<and>
                            f_tenantId f = f_tenantId row) (folders db) then None
      else if (case f_parentId row of
                 None \<Rightarrow> False
               | Some p \<Rightarrow> \<not> list_ex (\<lambda>f. f_id f = p) (folders db @ [row])) then None
      else if \<not> list_ex (\<lambda>t. t_id t = f_tenantId row) (tenants db) then None
      else Some (db\<lparr>folders := folders db @ [row]\<rparr>))"

text \<open>
  \<^verbatim>\<open>folder.update({ where: { id }, data: { name } })\<close>. It raises when no row has the id
  and on the unique index.
\<close>

definition update_folder_name :: "database \<Rightarrow> string \<Rightarrow> string \<Rightarrow> database option" where
  "update_folder_name db fid nm =
     (let hit = filter (\<lambda>f. f_id f = fid) (folders db);
          rest = filter (\<lambda>f. f_id f \<noteq> fid) (folders db)
      in if hit = [] then None
         else if list_ex (\<lambda>r. f_parentId r \<noteq> None \<and>
                   list_ex (\<lambda>s. f_parentId s = f_parentId r \<and> f_name s = nm \<and>
                                 f_tenantId s = f_tenantId r) rest) hit then None
         else Some (db\<lparr>folders :=
                 map (\<lambda>f. if f_id f = fid then f\<lparr>f_name := nm\<rparr> else f) (folders db)\<rparr>))"

text \<open>
  \<^verbatim>\<open>$transaction(async (tx) => ...)\<close>: the body's writes are kept when it returns and
  undone when it throws; the exception then reaches the handler's \<^verbatim>\<open>catch\<close>.
\<close>

definition transaction ::
  "(database \<Rightarrow> (database \<times> 'a) option) \<Rightarrow> database \<Rightarrow> database \<times> (error + 'a)" where
  "transaction body db =
     (case body db of
        None \<Rightarrow> (db, Inl StorageFailure)
      | Some (db', r) \<Rightarrow> (db', Inr r))"

section \<open>\<^verbatim>\<open>POST /tenants/:tenantId/folders\<close>: create a subfolder\<close>

text \<open>
  The handler up to the insert: the validation of the body, the lookup of the parent and
  the check for a sibling of the same name. It reads \<^verbatim>\<open>tenantId\<close>, \<^verbatim>\<open>name\<close> and
  \<^verbatim>\<open>parentId\<close> from \<^verbatim>\<open>req.body\<close>. An absent \<^verbatim>\<open>tenantId\<close> is a null parameter of the
  query, which no row equals. The result is what the insert needs: the trimmed name, the
  parent's id, the tenant and the parent's path as text.
\<close>

definition createFolder_check ::
  "database \<Rightarrow> request \<Rightarrow> error + (string \<times> string \<times> string \<times> string)" where
  "createFolder_check db req =
     (case body_name req of
        JString name \<Rightarrow>
          if name = [] \<or> trim name = [] then Inl InvalidInput
          else
            (case body_parentId req of
               JString parentId \<Rightarrow>
                 if parentId = [] then Inl InvalidInput
                 else
                   (case body_tenantId req of
                      None \<Rightarrow> Inl NotFound
                    | Some tenantId \<Rightarrow>
                        (case folder_by_id db parentId tenantId of
                           None \<Rightarrow> Inl NotFound
                         | Some parent \<Rightarrow>
                             (case sibling_named db (trim name) parentId tenantId of
                                Some existingFolder \<Rightarrow> Inl DuplicateName
                              | None \<Rightarrow>
                                  Inr (trim name, parentId, tenantId,
                                       ltree_out (f_path parent)))))
             | _ \<Rightarrow> Inl InvalidInput)
      | _ \<Rightarrow> Inl InvalidInput)"

text \<open>
  The insert and the read of the created row. \<open>newFolderId\<close> is the value of
  \<^verbatim>\<open>crypto.randomUUID()\<close>. An exception of the cast or of the insert is caught by the
  handler's \<^verbatim>\<open>catch\<close>.
\<close>

definition createFolder_insert ::
  "string \<Rightarrow> database \<Rightarrow> string \<times> string \<times> string \<times> string \<Rightarrow>
   database \<times> (error + Folder option)" where
  "createFolder_insert newFolderId db plan =
     (case plan of (trimmedName, parentId, tenantId, parentPath) \<Rightarrow>
        (let safeFolderId = replace_hyphens newFolderId;
             newPath = parentPath @ ''.'' @ safeFolderId
         in case ltree_in newPath of
              None \<Rightarrow> (db, Inl StorageFailure)
            | Some p \<Rightarrow>
                (case insert_folder db
                        \<lparr>f_id = newFolderId, f_name = trimmedName, f_parentId = Some parentId,
                         f_tenantId = tenantId, f_path = p\<rparr> of
                   None \<Rightarrow> (db, Inl StorageFailure)
                 | Some db' \<Rightarrow>
                     (db', Inr (find (\<lambda>f. f_id f = newFolderId) (folders db'))))))"

definition createFolder_handler ::
  "string \<Rightarrow> database \<Rightarrow> request \<Rightarrow> database \<times> (error + Folder option)" where
  "createFolder_handler newFolderId db req =
     (case createFolder_check db req of
        Inl e \<Rightarrow> (db, Inl e)
      | Inr plan \<Rightarrow> createFolder_insert newFolderId db plan)"

text \<open>The route: \<^verbatim>\<open>requireTenantAccess()\<close>, then the handler.\<close>

definition createFolder_route ::
  "string \<Rightarrow> database \<Rightarrow> request \<Rightarrow> database \<times> (error + Folder option)" where
  "createFolder_route newFolderId db req =
     (case requireTenantAccess db None req of
        Inl e \<Rightarrow> (db, Inl e)
      | Inr role \<Rightarrow> createFolder_handler newFolderId db req)"

section \<open>\<^verbatim>\<open>POST /tenants\<close>: create a tenant with its root folder\<close>

text \<open>
  The body of the transaction. \<open>tid\<close>, \<open>rid\<close> and \<open>mid\<close> are the generated ids of the
  tenant row, of the root folder (\<^verbatim>\<open>gen_random_uuid()\<close>) and of the membership row.
  \<open>throws k\<close> says that statement \<open>k\<close> of the transaction raises for a reason outside
  the tables of the model (a lost connection, a constraint on a table left out).
\<close>

definition createTenant_tx ::
  "string \<Rightarrow> string \<Rightarrow> string \<Rightarrow> (nat \<Rightarrow> bool) \<Rightarrow> string \<Rightarrow> string \<Rightarrow> database \<Rightarrow>
   (database \<times> Tenant option) option" where
  "createTenant_tx tid rid mid throws uid trimmedName db =
     (if throws 1 \<or> list_ex (\<lambda>t. t_id t = tid \<or> t_name t = trimmedName) (tenants db)
      then None
      else
        let db1 = db\<lparr>tenants := tenants db @
                      [\<lparr>t_id = tid, t_name = trimmedName, t_rootFolderId = None\<rparr>]\<rparr>;
            safePath = replace_hyphens tid
        in if throws 2 then None
           else
             (case ltree_in safePath of
                None \<Rightarrow> None
              | Some p \<Rightarrow>
                  (case insert_folder db1
                          \<lparr>f_id = rid, f_name = ''root'', f_parentId = None, f_tenantId = tid,
                           f_path = p\<rparr> of
                     None \<Rightarrow> None
                   | Some db2 \<Rightarrow>
                       if throws 3 \<or>
                          list_ex (\<lambda>t. t_id t \<noteq> tid \<and> t_rootFolderId t = Some rid) (tenants db2)
                       then None
                       else
                         let db3 = db2\<lparr>tenants :=
                                   map (\<lambda>t. if t_id t = tid then t\<lparr>t_rootFolderId := Some rid\<rparr>
                                             else t) (tenants db2)\<rparr>
                         in if throws 4 \<or>
                               list_ex (\<lambda>m. m_id m = mid \<or>
                                             (m_userId m = uid \<and> m_tenantId m = tid)) (members db3)
                            then None
                            else
                              let db4 = db3\<lparr>members := members db3 @
                                          [\<lparr>m_id = mid, m_userId = uid, m_tenantId = tid,
                                            m_role = TENANT_ADMIN\<rparr>]\<rparr>
                              in if throws 5 then None
                                 else Some (db4, find (\<lambda>t. t_id t = tid) (tenants db4)))))"

definition createTenant_handler ::
  "string \<Rightarrow> string \<Rightarrow> string \<Rightarrow> (nat \<Rightarrow> bool) \<Rightarrow> database \<Rightarrow> request \<Rightarrow>
   database \<times> (error + Tenant option)" where
  "createTenant_handler tid rid mid throws db req =
     (case req_user req of
        None \<Rightarrow> (db, Inl AuthRequired)
      | Some uid \<Rightarrow>
          (case body_name req of
             JString name \<Rightarrow>
               if name = [] \<or> trim name = [] then (db, Inl InvalidInput)
               else if list_ex (\<lambda>t. t_name t = trim name) (tenants db)
               then (db, Inl DuplicateName)
               else transaction (createTenant_tx tid rid mid throws uid (trim name)) db
           | _ \<Rightarrow> (db, Inl InvalidInput)))"

section \<open>\<^verbatim>\<open>DELETE /tenants/:tenantId/folders/:folderId\<close>: delete a subtree\<close>

text \<open>The rows of \<^verbatim>\<open>"Folder" WHERE path <@ ${path}::ltree AND "tenantId" = ${tenantId}\<close>.\<close>

definition in_subtree :: "ltree \<Rightarrow> string \<Rightarrow> Folder \<Rightarrow> bool" where
  "in_subtree path tenantId f = (contained_in (f_path f) path \<and> f_tenantId f = tenantId)"

text \<open>
  \<^verbatim>\<open>DELETE FROM "File" WHERE "folderId" IN (SELECT id FROM "Folder" WHERE ...)\<close>. It
  raises when a \<^verbatim>\<open>FileVersion\<close> row references a deleted file
  (\<^verbatim>\<open>FileVersion_fileId_fkey\<close>, \<^verbatim>\<open>ON DELETE RESTRICT\<close>).
\<close>

definition delete_files_in :: "ltree \<Rightarrow> string \<Rightarrow> database \<Rightarrow> database option" where
  "delete_files_in path tenantId db =
     (let ids = map f_id (filter (in_subtree path tenantId) (folders db));
          gone = filter (\<lambda>x. fl_folderId x \<in> set ids) (files db)
      in if list_ex (\<lambda>v. fv_fileId v \<in> set (map fl_id gone)) (fileVersions db) then None
         else Some (db\<lparr>files := filter (\<lambda>x. fl_folderId x \<notin> set ids) (files db)\<rparr>))"

text \<open>
  \<^verbatim>\<open>DELETE FROM "Folder" WHERE ... RETURNING id\<close>, counted. It raises when a remaining
  file references a deleted folder (\<^verbatim>\<open>File_folderId_fkey\<close>, \<^verbatim>\<open>ON DELETE RESTRICT\<close>); a
  remaining folder whose parent is deleted and a tenant whose root folder is deleted get a
  null reference (\<^verbatim>\<open>ON DELETE SET NULL\<close>).
\<close>

definition delete_folders_in :: "ltree \<Rightarrow> string \<Rightarrow> database \<Rightarrow> (database \<times> nat) option" where
  "delete_folders_in path tenantId db =
     (let deleted = filter (in_subtree path tenantId) (folders db);
          ids = map f_id deleted
      in if list_ex (\<lambda>x. fl_folderId x \<in> set ids) (files db) then None
         else Some
           (db\<lparr>folders :=
                 map (\<lambda>f. case f_parentId f of
                             None \<Rightarrow> f
                           | Some p \<Rightarrow> if p \<in> set ids then f\<lparr>f_parentId := None\<rparr> else f)
                   (filter (\<lambda>f. \<not> in_subtree path tenantId f) (folders db)),
               tenants :=
                 map (\<lambda>t. case t_rootFolderId t of
                             None \<Rightarrow> t
                           | Some r \<Rightarrow> if r \<in> set ids then t\<lparr>t_rootFolderId := None\<rparr> else t)
                   (tenants db)\<rparr>,
            length deleted))"

text \<open>The body of the transaction: the files first, then the folders.\<close>

definition deleteFolder_tx ::
  "ltree \<Rightarrow> string \<Rightarrow> (nat \<Rightarrow> bool) \<Rightarrow> database \<Rightarrow> (database \<times> nat) option" where
  "deleteFolder_tx path tenantId throws db =
     (if throws 1 then None
      else
        (case delete_files_in path tenantId db of
           None \<Rightarrow> None
         | Some db1 \<Rightarrow> if throws 2 then None else delete_folders_in path tenantId db1))"

definition deleteFolder_handler ::
  "(nat \<Rightarrow> bool) \<Rightarrow> database \<Rightarrow> request \<Rightarrow> database \<times> (error + nat)" where
  "deleteFolder_handler throws db req =
     (case folder_by_id db (params_folderId req) (params_tenantId req) of
        None \<Rightarrow> (db, Inl NotFound)
      | Some folderData \<Rightarrow>
          if f_parentId folderData = None then (db, Inl CannotDeleteRoot)
          else transaction (deleteFolder_tx (f_path folderData) (params_tenantId req) throws) db)"

text \<open>The route: \<^verbatim>\<open>requireTenantAccess(UserRole.TENANT_ADMIN)\<close>, then the handler.\<close>

definition deleteFolder_route ::
  "(nat \<Rightarrow> bool) \<Rightarrow> database \<Rightarrow> request \<Rightarrow> database \<times> (error + nat)" where
  "deleteFolder_route throws db req =
     (case requireTenantAccess db (Some TENANT_ADMIN) req of
        Inl e \<Rightarrow> (db, Inl e)
      | Inr role \<Rightarrow> deleteFolder_handler throws db req)"

section \<open>\<^verbatim>\<open>PATCH /tenants/:tenantId/folders/:folderId\<close>: rename a folder\<close>

text \<open>
  The sibling check runs when \<^verbatim>\<open>folder.parentId\<close> is truthy: not null and not the empty
  string.
\<close>

definition renameFolder_handler ::
  "database \<Rightarrow> request \<Rightarrow> database \<times> (error + Folder option)" where
  "renameFolder_handler db req =
     (case body_name req of
        JString name \<Rightarrow>
          if name = [] \<or> trim name = [] then (db, Inl InvalidInput)
          else
            (case folder_by_id db (params_folderId req) (params_tenantId req) of
               None \<Rightarrow> (db, Inl NotFound)
             | Some folder \<Rightarrow>
                 if (case f_parentId folder of
                       None \<Rightarrow> False
                     | Some parentId \<Rightarrow>
                         parentId \<noteq> [] \<and>
                         sibling_named_except db (trim name) parentId (params_tenantId req)
                           (params_folderId req) \<noteq> None)
                 then (db, Inl DuplicateName)
                 else
                   (case update_folder_name db (params_folderId req) (trim name) of
                      None \<Rightarrow> (db, Inl StorageFailure)
                    | Some db' \<Rightarrow>
                        (db', Inr (find (\<lambda>f. f_id f = params_folderId req) (folders db')))))
      | _ \<Rightarrow> (db, Inl InvalidInput))"

definition renameFolder_route ::
  "database \<Rightarrow> request \<Rightarrow> database \<times> (error + Folder option)" where
  "renameFolder_route db req =
     (case requireTenantAccess db None req of
        Inl e \<Rightarrow> (db, Inl e)
      | Inr role \<Rightarrow> renameFolder_handler db req)"

section \<open>The subtree and breadcrumb queries\<close>

text \<open>A row of the result: \<^verbatim>\<open>id, name, path::text as path, depth\<close>.\<close>

record FolderWithPath =
  r_id :: string
  r_name :: string
  r_path :: string
  r_depth :: int

definition with_depth :: "int \<Rightarrow> Folder \<Rightarrow> FolderWithPath" where
  "with_depth d f = \<lparr>r_id = f_id f, r_name = f_name f, r_path = ltree_out (f_path f), r_depth = d\<rparr>"

text \<open>
  \<^verbatim>\<open>GET /:folderId/descendants\<close>. The rows with \<^verbatim>\<open>path <@ pivot\<close>, another id and the
  tenant of the request, \<^verbatim>\<open>ORDER BY path ASC\<close>; the depth is
  \<^verbatim>\<open>nlevel(path) - nlevel(pivot)\<close>. Paths are ordered label by label, labels
  character by character, a prefix before its extensions.
\<close>

definition descendant_rows :: "database \<Rightarrow> string \<Rightarrow> string \<Rightarrow> ltree \<Rightarrow> Folder list" where
  "descendant_rows db folderId tenantId path =
     sort_key f_path
       (filter (\<lambda>f. contained_in (f_path f) path \<and> f_id f \<noteq> folderId \<and> f_tenantId f = tenantId)
          (folders db))"

definition listDescendants_handler :: "database \<Rightarrow> request \<Rightarrow> error + FolderWithPath list" where
  "listDescendants_handler db req =
     (case folder_by_id db (params_folderId req) (params_tenantId req) of
        None \<Rightarrow> Inl NotFound
      | Some pivot \<Rightarrow>
          Inr (map (\<lambda>f. with_depth (nlevel (f_path f) - nlevel (f_path pivot)) f)
                 (descendant_rows db (params_folderId req) (params_tenantId req) (f_path pivot))))"

text \<open>
  \<^verbatim>\<open>GET /:folderId/ancestors\<close>. The rows with \<^verbatim>\<open>path @> pivot\<close> and the tenant of the
  request, \<^verbatim>\<open>ORDER BY nlevel(path) ASC\<close>; the depth is \<^verbatim>\<open>nlevel(path)\<close>.
\<close>

definition ancestor_rows :: "database \<Rightarrow> string \<Rightarrow> ltree \<Rightarrow> Folder list" where
  "ancestor_rows db tenantId path =
     sort_key (\<lambda>f. nlevel (f_path f))
       (filter (\<lambda>f. contains_path (f_path f) path \<and> f_tenantId f = tenantId) (folders db))"

definition listAncestors_handler :: "database \<Rightarrow> request \<Rightarrow> error + FolderWithPath list" where
  "listAncestors_handler db req =
     (case folder_by_id db (params_folderId req) (params_tenantId req) of
        None \<Rightarrow> Inl NotFound
      | Some pivot \<Rightarrow>
          Inr (map (\<lambda>f. with_depth (nlevel (f_path f)) f)
                 (ancestor_rows db (params_tenantId req) (f_path pivot))))"

section \<open>Example data\<close>

text \<open>
  Two tenants. Acme has the folders root, Reports and Q1 below one another and a file in
  Q1; Globex has its root folder with a file that has one version. User \<open>u-1\<close> administers
  Acme and user \<open>u-2\<close> is a member of Globex.
\<close>

definition acme :: database where
  "acme =
     \<lparr>folders =
        [\<lparr>f_id = ''f-0'', f_name = ''root'', f_parentId = None, f_tenantId = ''t-1'',
          f_path = [''t_1'']\<rparr>,
         \<lparr>f_id = ''f-1'', f_name = ''Reports'', f_parentId = Some ''f-0'', f_tenantId = ''t-1'',
          f_path = [''t_1'', ''f_1'']\<rparr>,
         \<lparr>f_id = ''f-2'', f_name = ''Q1'', f_parentId = Some ''f-1'', f_tenantId = ''t-1'',
          f_path = [''t_1'', ''f_1'', ''f_2'']\<rparr>,
         \<lparr>f_id = ''g-0'', f_name = ''root'', f_parentId = None, f_tenantId = ''t-2'',
          f_path = [''t_2'']\<rparr>],
      files =
        [\<lparr>fl_id = ''d-1'', fl_name = ''plan.pdf'', fl_folderId = ''f-2'', fl_tenantId = ''t-1''\<rparr>,
         \<lparr>fl_id = ''d-2'', fl_name = ''memo.txt'', fl_folderId = ''g-0'', fl_tenantId = ''t-2''\<rparr>],
      fileVersions = [\<lparr>fv_id = ''v-1'', fv_fileId = ''d-2''\<rparr>],
      tenants =
        [\<lparr>t_id = ''t-1'', t_name = ''Acme'', t_rootFolderId = Some ''f-0''\<rparr>,
         \<lparr>t_id = ''t-2'', t_name = ''Globex'', t_rootFolderId = Some ''g-0''\<rparr>],
      members =
        [\<lparr>m_id = ''m-1'', m_userId = ''u-1'', m_tenantId = ''t-1'', m_role = TENANT_ADMIN\<rparr>,
         \<lparr>m_id = ''m-2'', m_userId = ''u-2'', m_tenantId = ''t-2'', m_role = USER\<rparr>]\<rparr>"

text \<open>User \<open>u-1\<close> creates the folder Drafts in Reports.\<close>

definition create_req :: request where
  "create_req =
     \<lparr>req_user = Some ''u-1'', params_tenantId = ''t-1'', params_folderId = [],
      body_tenantId = Some ''t-1'', body_name = JString '' Drafts '',
      body_parentId = JString ''f-1''\<rparr>"

definition drafts :: Folder where
  "drafts =
     \<lparr>f_id = ''f-3'', f_name = ''Drafts'', f_parentId = Some ''f-1'', f_tenantId = ''t-1'',
      f_path = [''t_1'', ''f_1'', ''f_3'']\<rparr>"

text \<open>User \<open>u-1\<close> creates the tenant Initech.\<close>

definition tenant_req :: request where
  "tenant_req =
     \<lparr>req_user = Some ''u-1'', params_tenantId = [], params_folderId = [],
      body_tenantId = None, body_name = JString ''Initech'', body_parentId = JUndefined\<rparr>"

definition initech_root :: Folder where
  "initech_root =
     \<lparr>f_id = ''h-0'', f_name = ''root'', f_parentId = None, f_tenantId = ''t-3'',
      f_path = [''t_3'']\<rparr>"

definition initech :: Tenant where
  "initech = \<lparr>t_id = ''t-3'', t_name = ''Initech'', t_rootFolderId = Some ''h-0''\<rparr>"

definition with_initech :: database where
  "with_initech =
     acme\<lparr>folders := folders acme @ [initech_root],
          tenants := tenants acme @ [initech],
          members := members acme @
            [\<lparr>m_id = ''m-3'', m_userId = ''u-1'', m_tenantId = ''t-3'', m_role = TENANT_ADMIN\<rparr>]\<rparr>"

text \<open>
  The administrator of Acme deletes Reports (\<open>delete_req\<close>), which leaves the two root
  folders and the file of Globex (\<open>acme_pruned\<close>), and asks to delete the root folder of
  Acme (\<open>delete_root_req\<close>).
\<close>

definition delete_req :: request where
  "delete_req =
     \<lparr>req_user = Some ''u-1'', params_tenantId = ''t-1'', params_folderId = ''f-1'',
      body_tenantId = None, body_name = JUndefined, body_parentId = JUndefined\<rparr>"

definition acme_pruned :: database where
  "acme_pruned =
     acme\<lparr>folders :=
            [\<lparr>f_id = ''f-0'', f_name = ''root'', f_parentId = None, f_tenantId = ''t-1'',
              f_path = [''t_1'']\<rparr>,
             \<lparr>f_id = ''g-0'', f_name = ''root'', f_parentId = None, f_tenantId = ''t-2'',
              f_path = [''t_2'']\<rparr>],
          files :=
            [\<lparr>fl_id = ''d-2'', fl_name = ''memo.txt'', fl_folderId = ''g-0'',
              fl_tenantId = ''t-2''\<rparr>]\<rparr>"

definition delete_root_req :: request where
  "delete_root_req =
     \<lparr>req_user = Some ''u-1'', params_tenantId = ''t-1'', params_folderId = ''f-0'',
      body_tenantId = None, body_name = JUndefined, body_parentId = JUndefined\<rparr>"

text \<open>Acme after Drafts was created in Reports.\<close>

definition acme_drafts :: database where
  "acme_drafts = acme\<lparr>folders := folders acme @ [drafts]\<rparr>"

text \<open>
  Two tenants with generated ids, each with its root folder. \<open>mallory\<close> is a member of
  \<open>tenantA\<close> only. Her request goes to the folder route of \<open>tenantA\<close> and names
  \<open>tenantB\<close> and its root folder in the body.
\<close>

definition tenantA :: string where
  "tenantA = ''3f2b8c1e-5a7d-4e9b-8c21-7d4a9e6b1f30''"

definition tenantB :: string where
  "tenantB = ''a81d4fae-7dec-41d0-a765-00a0c91e6bf6''"

definition rootA :: string where
  "rootA = ''0e9a3c52-6b1f-4d8e-9a47-c2d15e8f7b64''"

definition rootB :: string where
  "rootB = ''6fa459ea-ee8a-4ca4-894e-db77e160355e''"

definition mallory :: string where
  "mallory = ''7c9e6679-7425-40de-944b-e07fc1f90ae7''"

definition bob :: string where
  "bob = ''550e8400-e29b-41d4-a716-446655440000''"

definition two_tenants :: database where
  "two_tenants =
     \<lparr>folders =
        [\<lparr>f_id = rootA, f_name = ''root'', f_parentId = None, f_tenantId = tenantA,
          f_path = [''3f2b8c1e_5a7d_4e9b_8c21_7d4a9e6b1f30'']\<rparr>,
         \<lparr>f_id = rootB, f_name = ''root'', f_parentId = None, f_tenantId = tenantB,
          f_path = [''a81d4fae_7dec_41d0_a765_00a0c91e6bf6'']\<rparr>],
      files = [],
      fileVersions = [],
      tenants =
        [\<lparr>t_id = tenantA, t_name = ''Acme'', t_rootFolderId = Some rootA\<rparr>,
         \<lparr>t_id = tenantB, t_name = ''Globex'', t_rootFolderId = Some rootB\<rparr>],
      members =
        [\<lparr>m_id = ''f47ac10b-58cc-4372-a567-0e02b2c3d479'', m_userId = mallory,
          m_tenantId = tenantA, m_role = USER\<rparr>,
         \<lparr>m_id = ''9b2e1d3c-4f5a-4b6c-8d7e-1a2b3c4d5e6f'', m_userId = bob,
          m_tenantId = tenantB, m_role = TENANT_ADMIN\<rparr>]\<rparr>"

definition cross_req :: request where
  "cross_req =
     \<lparr>req_user = Some mallory, params_tenantId = tenantA, params_folderId = [],
      body_tenantId = Some tenantB, body_name = JString ''Planted'',
      body_parentId = JString rootB\<rparr>"

definition planted :: Folder where
  "planted =
     \<lparr>f_id = ''16fd2706-8baf-433b-82eb-8c7fada847da'', f_name = ''Planted'',
      f_parentId = Some rootB, f_tenantId = tenantB,
      f_path = [''a81d4fae_7dec_41d0_a765_00a0c91e6bf6'',
                ''16fd2706_8baf_433b_82eb_8c7fada847da'']\<rparr>"

text \<open>The administrator of Acme renames Reports to Archive.\<close>

definition rename_req :: request where
  "rename_req =
     \<lparr>req_user = Some ''u-1'', params_tenantId = ''t-1'', params_folderId = ''f-1'',
      body_tenantId = None, body_name = JString ''Archive'', body_parentId = JUndefined\<rparr>"

definition archive :: Folder where
  "archive =
     \<lparr>f_id = ''f-1'', f_name = ''Archive'', f_parentId = Some ''f-0'', f_tenantId = ''t-1'',
      f_path = [''t_1'', ''f_1'']\<rparr>"

definition acme_renamed :: database where
  "acme_renamed =
     acme\<lparr>folders :=
            [\<lparr>f_id = ''f-0'', f_name = ''root'', f_parentId = None, f_tenantId = ''t-1'',
              f_path = [''t_1'']\<rparr>,
             archive,
             \<lparr>f_id = ''f-2'', f_name = ''Q1'', f_parentId = Some ''f-1'', f_tenantId = ''t-1'',
              f_path = [''t_1'', ''f_1'', ''f_2'']\<rparr>,
             \<lparr>f_id = ''g-0'', f_name = ''root'', f_parentId = None, f_tenantId = ''t-2'',
              f_path = [''t_2'']\<rparr>]\<rparr>"

text \<open>
  The rows of Acme's tree stored in another order, and the requests that list below and
  above the root folder and above Q1, with the rows of the answers.
\<close>

definition acme_shuffled :: database where
  "acme_shuffled =
     acme\<lparr>folders :=
            [\<lparr>f_id = ''f-2'', f_name = ''Q1'', f_parentId = Some ''f-1'', f_tenantId = ''t-1'',
              f_path = [''t_1'', ''f_1'', ''f_2'']\<rparr>,
             \<lparr>f_id = ''g-0'', f_name = ''root'', f_parentId = None, f_tenantId = ''t-2'',
              f_path = [''t_2'']\<rparr>,
             \<lparr>f_id = ''f-1'', f_name = ''Reports'', f_parentId = Some ''f-0'', f_tenantId = ''t-1'',
              f_path = [''t_1'', ''f_1'']\<rparr>,
             \<lparr>f_id = ''f-0'', f_name = ''root'', f_parentId = None, f_tenantId = ''t-1'',
              f_path = [''t_1'']\<rparr>]\<rparr>"

definition acme_root :: Folder where
  "acme_root =
     \<lparr>f_id = ''f-0'', f_name = ''root'', f_parentId = None, f_tenantId = ''t-1'',
      f_path = [''t_1'']\<rparr>"

definition acme_q1 :: Folder where
  "acme_q1 =
     \<lparr>f_id = ''f-2'', f_name = ''Q1'', f_parentId = Some ''f-1'', f_tenantId = ''t-1'',
      f_path = [''t_1'', ''f_1'', ''f_2'']\<rparr>"

definition list_root_req :: request where
  "list_root_req =
     \<lparr>req_user = Some ''u-1'', params_tenantId = ''t-1'', params_folderId = ''f-0'',
      body_tenantId = None, body_name = JUndefined, body_parentId = JUndefined\<rparr>"

definition list_q1_req :: request where
  "list_q1_req =
     \<lparr>req_user = Some ''u-1'', params_tenantId = ''t-1'', params_folderId = ''f-2'',
      body_tenantId = None, body_name = JUndefined, body_parentId = JUndefined\<rparr>"

definition below_root :: "FolderWithPath list" where
  "below_root =
     [\<lparr>r_id = ''f-1'', r_name = ''Reports'', r_path = ''t_1.f_1'', r_depth = 1\<rparr>,
      \<lparr>r_id = ''f-2'', r_name = ''Q1'', r_path = ''t_1.f_1.f_2'', r_depth = 2\<rparr>]"

definition above_root :: "FolderWithPath list" where
  "above_root = [\<lparr>r_id = ''f-0'', r_name = ''root'', r_path = ''t_1'', r_depth = 1\<rparr>]"

definition above_q1 :: "FolderWithPath list" where
  "above_q1 =
     [\<lparr>r_id = ''f-0'', r_name = ''root'', r_path = ''t_1'', r_depth = 1\<rparr>,
      \<lparr>r_id = ''f-1'', r_name = ''Reports'', r_path = ''t_1.f_1'', r_depth = 2\<rparr>,
      \<lparr>r_id = ''f-2'', r_name = ''Q1'', r_path = ''t_1.f_1.f_2'', r_depth = 3\<rparr>]"

section \<open>Names that differ in letter case\<close>

text \<open>
  The words of the claim on letter case: two names differ only in letter case when they
  are different and equal once every letter \<open>A\<close> to \<open>Z\<close> is replaced by its lower-case
  letter.
\<close>

definition lower_char :: "char \<Rightarrow> char" where
  "lower_char c =
     (case map_of (zip ''ABCDEFGHIJKLMNOPQRSTUVWXYZ'' ''abcdefghijklmnopqrstuvwxyz'') c of
        None \<Rightarrow> c
      | Some l \<Rightarrow> l)"

definition differs_in_case_only :: "string \<Rightarrow> string \<Rightarrow> bool" where
  "differs_in_case_only a b = (a \<noteq> b \<and> map lower_char a = map lower_char b)"

text \<open>
  In Acme with Drafts, where Reports holds Q1 and Drafts: a request to create \<open>q1\<close> in
  Reports and a request to rename Drafts to \<open>q1\<close>.
\<close>

definition acme_reports :: Folder where
  "acme_reports =
     \<lparr>f_id = ''f-1'', f_name = ''Reports'', f_parentId = Some ''f-0'', f_tenantId = ''t-1'',
      f_path = [''t_1'', ''f_1'']\<rparr>"

definition lower_create_req :: request where
  "lower_create_req =
     \<lparr>req_user = Some ''u-1'', params_tenantId = ''t-1'', params_folderId = [],
      body_tenantId = Some ''t-1'', body_name = JString ''q1'',
      body_parentId = JString ''f-1''\<rparr>"

definition lower_rename_req :: request where
  "lower_rename_req =
     \<lparr>req_user = Some ''u-1'', params_tenantId = ''t-1'', params_folderId = ''f-3'',
      body_tenantId = None, body_name = JString ''q1'', body_parentId = JUndefined\<rparr>"

definition lower_q1 :: Folder where
  "lower_q1 =
     \<lparr>f_id = ''f-4'', f_name = ''q1'', f_parentId = Some ''f-1'', f_tenantId = ''t-1'',
      f_path = [''t_1'', ''f_1'', ''f_4'']\<rparr>"

section \<open>Lemmas on label paths\<close>

lemma split_dots_not_Nil: "split_dots s \<noteq> []"
  by (induction s) (auto split: list.splits)

lemma ltree_out_Cons: "ls \<noteq> [] \<Longrightarrow> ltree_out (l # ls) = l @ CHR ''.'' # ltree_out ls"
  by (cases ls) simp_all

lemma ltree_out_split_dots: "ltree_out (split_dots s) = s"
proof (induction s)
  case Nil
  show ?case by simp
next
  case (Cons c cs)
  show ?case
  proof (cases "c = CHR ''.''")
    case True
    with Cons show ?thesis
      by (simp add: ltree_out_Cons split_dots_not_Nil)
  next
    case False
    obtain l ls where sp: "split_dots cs = l # ls"
      using split_dots_not_Nil [of cs] by (cases "split_dots cs") auto
    have "ltree_out ((c # l) # ls) = c # ltree_out (l # ls)"
      by (cases ls) simp_all
    with False sp Cons show ?thesis by simp
  qed
qed

text \<open>Casting a text to a path and back gives the text.\<close>

lemma ltree_out_in: "ltree_in s = Some p \<Longrightarrow> ltree_out p = s"
  by (auto simp: ltree_in_def ltree_out_split_dots split: if_splits)

lemma label_char_not_dot: "label_char c \<Longrightarrow> c \<noteq> CHR ''.''"
  by (auto simp: label_char_def)

lemma split_dots_label: "list_all label_char l \<Longrightarrow> split_dots l = [l]"
  by (induction l) (auto dest: label_char_not_dot)

lemma split_dots_label_dot:
  "list_all label_char l \<Longrightarrow> split_dots (l @ CHR ''.'' # s) = l # split_dots s"
  by (induction l) (auto dest: label_char_not_dot)

lemma split_dots_ltree_out:
  "valid_ltree p \<Longrightarrow> p \<noteq> [] \<Longrightarrow> split_dots (ltree_out p) = p"
proof (induction p rule: ltree_out.induct)
  case 1
  then show ?case by simp
next
  case (2 l)
  then show ?case by (simp add: valid_ltree_def valid_label_def split_dots_label)
next
  case (3 l m ls)
  then show ?case by (simp add: valid_ltree_def valid_label_def split_dots_label_dot)
qed

text \<open>
  Reading a stored path as text and casting the text back gives the stored path. The list
  handlers and the delete handler do exactly this with the path of the folder they look up
  (\<^verbatim>\<open>path::text\<close>, then \<^verbatim>\<open>${path}::ltree\<close>), so the model uses the stored value
  there.
\<close>

lemma ltree_in_out: "valid_ltree p \<Longrightarrow> ltree_in (ltree_out p) = Some p"
proof (cases "p = []")
  case True
  then show ?thesis by (simp add: ltree_in_def)
next
  case False
  assume v: "valid_ltree p"
  have ne: "ltree_out p \<noteq> []"
  proof (cases p)
    case Nil
    with False show ?thesis by simp
  next
    case (Cons l ls)
    with v have "l \<noteq> []" by (simp add: valid_ltree_def valid_label_def)
    with Cons show ?thesis by (cases ls) simp_all
  qed
  with v False show ?thesis by (simp add: ltree_in_def split_dots_ltree_out)
qed

lemma split_dots_append_label:
  "valid_ltree p \<Longrightarrow> p \<noteq> [] \<Longrightarrow> list_all label_char s \<Longrightarrow>
   split_dots (ltree_out p @ CHR ''.'' # s) = p @ [s]"
proof (induction p rule: ltree_out.induct)
  case 1
  then show ?case by simp
next
  case (2 l)
  then show ?case
    by (simp add: valid_ltree_def valid_label_def split_dots_label_dot split_dots_label)
next
  case (3 l m ls)
  then show ?case by (simp add: valid_ltree_def valid_label_def split_dots_label_dot)
qed

text \<open>Appending one label to a stored path, as text, and casting the result.\<close>

lemma ltree_in_child:
  assumes "valid_ltree p" and "p \<noteq> []" and "valid_label s"
  shows "ltree_in (ltree_out p @ CHR ''.'' # s) = Some (p @ [s])"
  using assms
  by (simp add: ltree_in_def split_dots_append_label valid_label_def valid_ltree_def)


lemma split_dots_no_dot: "CHR ''.'' \<notin> set s \<Longrightarrow> split_dots s = [s]"
  by (induction s) auto

lemma ltree_in_single:
  "ltree_in s = Some p \<Longrightarrow> s \<noteq> [] \<Longrightarrow> CHR ''.'' \<notin> set s \<Longrightarrow> p = [s]"
  by (auto simp: ltree_in_def split_dots_no_dot split: if_splits)

section \<open>Evaluating the handlers\<close>

lemmas eval_defs =
  createFolder_route_def createFolder_handler_def createFolder_check_def createFolder_insert_def
  createTenant_handler_def createTenant_tx_def transaction_def
  deleteFolder_route_def deleteFolder_handler_def deleteFolder_tx_def delete_files_in_def
  delete_folders_in_def in_subtree_def
  renameFolder_route_def renameFolder_handler_def update_folder_name_def
  listDescendants_handler_def listAncestors_handler_def descendant_rows_def ancestor_rows_def
  with_depth_def requireTenantAccess_def
  folder_by_id_def sibling_named_def sibling_named_except_def insert_folder_def
  trim_def is_space_def replace_hyphens_def ltree_in_def valid_ltree_def valid_label_def
  label_char_def nlevel_def contained_in_def contains_path_def

section \<open>What a successful statement did\<close>

lemma insert_folder_Some:
  "insert_folder db row = Some db' \<Longrightarrow> db' = db\<lparr>folders := folders db @ [row]\<rparr>"
  by (auto simp: insert_folder_def split: if_splits)

lemma createFolder_check_Inr:
  "createFolder_check db req = Inr (nm, pid, tid, ppath) \<Longrightarrow>
   \<exists>name parent. body_name req = JString name \<and> nm = trim name \<and> nm \<noteq> [] \<and>
     body_parentId req = JString pid \<and> body_tenantId req = Some tid \<and>
     folder_by_id db pid tid = Some parent \<and> ppath = ltree_out (f_path parent) \<and>
     sibling_named db nm pid tid = None"
  by (auto simp: createFolder_check_def split: jsval.splits if_splits option.splits)

lemma createFolder_insert_Inr:
  "createFolder_insert newId db (nm, pid, tid, ppath) = (db', Inr r) \<Longrightarrow>
   \<exists>p. ltree_in (ppath @ ''.'' @ replace_hyphens newId) = Some p \<and>
       db' = db\<lparr>folders := folders db @
          [\<lparr>f_id = newId, f_name = nm, f_parentId = Some pid, f_tenantId = tid, f_path = p\<rparr>]\<rparr>"
  by (auto simp: createFolder_insert_def Let_def dest: insert_folder_Some split: option.splits)

lemma map_tenant_absent:
  "\<not> list_ex (\<lambda>t. t_id t = tid \<or> Q t) ts \<Longrightarrow>
   map (\<lambda>t. if t_id t = tid then g t else t) ts = ts"
  by (induction ts) auto

lemma createTenant_tx_Some:
  "createTenant_tx tid rid mid throws uid nm db = Some (db', t) \<Longrightarrow>
   \<exists>p. ltree_in (replace_hyphens tid) = Some p \<and>
     \<not> list_ex (\<lambda>t. t_id t = tid \<or> t_name t = nm) (tenants db) \<and>
     \<not> list_ex (\<lambda>f. f_id f = rid) (folders db) \<and>
     folders db' = folders db @
        [\<lparr>f_id = rid, f_name = ''root'', f_parentId = None, f_tenantId = tid, f_path = p\<rparr>] \<and>
     tenants db' = tenants db @ [\<lparr>t_id = tid, t_name = nm, t_rootFolderId = Some rid\<rparr>] \<and>
     members db' = members db @
        [\<lparr>m_id = mid, m_userId = uid, m_tenantId = tid, m_role = TENANT_ADMIN\<rparr>] \<and>
     files db' = files db \<and> fileVersions db' = fileVersions db"
  apply (simp add: createTenant_tx_def Let_def split: if_splits option.splits)
  apply (auto simp: insert_folder_def map_tenant_absent split: if_splits)
  done

lemma createTenant_handler_Inr:
  "createTenant_handler tid rid mid throws db req = (db', Inr t) \<Longrightarrow>
   \<exists>uid nm. createTenant_tx tid rid mid throws uid nm db = Some (db', t)"
  by (auto simp: createTenant_handler_def transaction_def
      split: option.splits jsval.splits if_splits)

section \<open>Path consistency of created folders\<close>

text \<open>
  Claim C1. A folder created by the subfolder handler is stored with the path, as text, of
  its parent followed by a dot and by its own id with every hyphen replaced by an
  underscore. The root folder created with a tenant has no parent and is stored with the
  tenant's id with every hyphen replaced by an underscore; the path is that single label
  whenever the generated tenant id is not empty and holds no dot.
\<close>

theorem created_folder_path:
  "(createFolder_handler newFolderId db req = (db', Inr r) \<longrightarrow>
      (\<exists>parentId tenantId parent f.
          body_parentId req = JString parentId \<and> body_tenantId req = Some tenantId \<and>
          folder_by_id db parentId tenantId = Some parent \<and>
          folders db' = folders db @ [f] \<and> f_id f = newFolderId \<and>
          f_parentId f = Some parentId \<and>
          ltree_out (f_path f) =
            ltree_out (f_path parent) @ ''.'' @ replace_hyphens newFolderId)) \<and>
   (createTenant_handler tid rid mid throws db2 req2 = (db'', Inr t) \<longrightarrow>
      (\<exists>f. folders db'' = folders db2 @ [f] \<and> f_id f = rid \<and> f_parentId f = None \<and>
           f_tenantId f = tid \<and> ltree_out (f_path f) = replace_hyphens tid \<and>
           (tid \<noteq> [] \<and> CHR ''.'' \<notin> set tid \<longrightarrow> f_path f = [replace_hyphens tid])))"
proof (intro conjI impI)
  assume a: "createFolder_handler newFolderId db req = (db', Inr r)"
  then obtain nm pid tn ppath where
    chk: "createFolder_check db req = Inr (nm, pid, tn, ppath)" and
    ins: "createFolder_insert newFolderId db (nm, pid, tn, ppath) = (db', Inr r)"
    by (auto simp: createFolder_handler_def split: sum.splits)
  from createFolder_check_Inr [OF chk] obtain parent where
    par: "body_parentId req = JString pid" "body_tenantId req = Some tn"
      "folder_by_id db pid tn = Some parent" "ppath = ltree_out (f_path parent)"
    by blast
  from createFolder_insert_Inr [OF ins] obtain p where
    p: "ltree_in (ppath @ ''.'' @ replace_hyphens newFolderId) = Some p" and
    db': "db' = db\<lparr>folders := folders db @
          [\<lparr>f_id = newFolderId, f_name = nm, f_parentId = Some pid, f_tenantId = tn,
            f_path = p\<rparr>]\<rparr>"
    by blast
  from ltree_out_in [OF p] par(4)
  have "ltree_out p = ltree_out (f_path parent) @ ''.'' @ replace_hyphens newFolderId"
    by simp
  with par db' show "\<exists>parentId tenantId parent f.
          body_parentId req = JString parentId \<and> body_tenantId req = Some tenantId \<and>
          folder_by_id db parentId tenantId = Some parent \<and>
          folders db' = folders db @ [f] \<and> f_id f = newFolderId \<and>
          f_parentId f = Some parentId \<and>
          ltree_out (f_path f) =
            ltree_out (f_path parent) @ ''.'' @ replace_hyphens newFolderId"
    by simp
next
  assume a: "createTenant_handler tid rid mid throws db2 req2 = (db'', Inr t)"
  from createTenant_handler_Inr [OF a] obtain uid nm where
    tx: "createTenant_tx tid rid mid throws uid nm db2 = Some (db'', t)"
    by blast
  from createTenant_tx_Some [OF tx] obtain p where
    p: "ltree_in (replace_hyphens tid) = Some p" and
    f: "folders db'' = folders db2 @
        [\<lparr>f_id = rid, f_name = ''root'', f_parentId = None, f_tenantId = tid, f_path = p\<rparr>]"
    by blast
  have one: "tid \<noteq> [] \<and> CHR ''.'' \<notin> set tid \<longrightarrow> p = [replace_hyphens tid]"
    using ltree_in_single [OF p] by (auto simp: replace_hyphens_def)
  from ltree_out_in [OF p] f one
  show "\<exists>f. folders db'' = folders db2 @ [f] \<and> f_id f = rid \<and> f_parentId f = None \<and>
           f_tenantId f = tid \<and> ltree_out (f_path f) = replace_hyphens tid \<and>
           (tid \<noteq> [] \<and> CHR ''.'' \<notin> set tid \<longrightarrow> f_path f = [replace_hyphens tid])"
    by simp
qed

theorem created_folder_path_witness:
  "createFolder_handler ''f-3'' acme create_req =
     (acme\<lparr>folders := folders acme @ [drafts]\<rparr>, Inr (Some drafts)) \<and>
   createTenant_handler ''t-3'' ''h-0'' ''m-3'' (\<lambda>k. False) acme tenant_req =
     (with_initech, Inr (Some initech)) \<and>
   (\<exists>f. folders (acme\<lparr>folders := folders acme @ [drafts]\<rparr>) = folders acme @ [f] \<and>
        ltree_out (f_path f) = ''t_1.f_1.f_3'') \<and>
   (\<exists>f. folders with_initech = folders acme @ [f] \<and> f_parentId f = None \<and>
        f_path f = [''t_3''])"
  using created_folder_path [of "''f-3''" acme create_req
      "acme\<lparr>folders := folders acme @ [drafts]\<rparr>" "Some drafts"
      "''t-3''" "''h-0''" "''m-3''" "\<lambda>k. False" acme tenant_req with_initech "Some initech"]
  by (simp add: eval_defs acme_def create_req_def drafts_def tenant_req_def with_initech_def
      initech_def initech_root_def)

section \<open>Looking rows up\<close>

lemma find_SomeD: "find P xs = Some x \<Longrightarrow> x \<in> set xs \<and> P x"
  by (induction xs) (auto split: if_splits)

lemma find_distinct_key:
  "distinct (map k xs) \<Longrightarrow> x \<in> set xs \<Longrightarrow> Q x \<Longrightarrow> find (\<lambda>y. k y = k x \<and> Q y) xs = Some x"
  by (induction xs) (auto simp: image_iff)

lemma folder_by_id_row:
  "distinct (map f_id (folders db)) \<Longrightarrow> F \<in> set (folders db) \<Longrightarrow>
   folder_by_id db (f_id F) (f_tenantId F) = Some F"
  unfolding folder_by_id_def
  using find_distinct_key [of f_id "folders db" F "\<lambda>y. f_tenantId y = f_tenantId F"] by simp

lemma folder_by_id_SomeD:
  "folder_by_id db fid tid = Some F \<Longrightarrow> F \<in> set (folders db) \<and> f_id F = fid \<and> f_tenantId F = tid"
  unfolding folder_by_id_def by (auto dest: find_SomeD)

lemma in_subtree_fun:
  "in_subtree p t = (\<lambda>f. f_tenantId f = t \<and> contained_in (f_path f) p)"
  by (rule ext) (auto simp: in_subtree_def)

lemma delete_files_in_Some:
  "delete_files_in path tid db = Some db1 \<Longrightarrow>
   db1 = db\<lparr>files := filter (\<lambda>x. fl_folderId x \<notin>
             set (map f_id (filter (in_subtree path tid) (folders db)))) (files db)\<rparr>"
  by (simp add: delete_files_in_def Let_def split: if_splits)

lemma orphaned_id:
  "f_id (case f_parentId f of None \<Rightarrow> f
         | Some p \<Rightarrow> if p \<in> S then f\<lparr>f_parentId := None\<rparr> else f) = f_id f"
  by (simp split: option.splits)

lemma delete_folders_in_Some:
  assumes "delete_folders_in path tid db = Some (db', n)"
  shows "map f_id (folders db') = map f_id (filter (\<lambda>f. \<not> in_subtree path tid f) (folders db))"
    and "n = length (filter (in_subtree path tid) (folders db))"
    and "files db' = files db"
  using assms
  by (auto simp: delete_folders_in_def Let_def orphaned_id split: if_splits)

lemma deleteFolder_tx_Some:
  assumes "deleteFolder_tx path tid throws db = Some (db', n)"
  shows "files db' = filter (\<lambda>x. fl_folderId x \<notin>
             set (map f_id (filter (in_subtree path tid) (folders db)))) (files db)"
    and "map f_id (folders db') = map f_id (filter (\<lambda>f. \<not> in_subtree path tid f) (folders db))"
    and "n = length (filter (in_subtree path tid) (folders db))"
proof -
  from assms obtain db1 where
    one: "delete_files_in path tid db = Some db1" and
    two: "delete_folders_in path tid db1 = Some (db', n)"
    by (auto simp: deleteFolder_tx_def split: if_splits option.splits)
  from delete_files_in_Some [OF one] have
    f1: "folders db1 = folders db" and
    fl: "files db1 = filter (\<lambda>x. fl_folderId x \<notin>
             set (map f_id (filter (in_subtree path tid) (folders db)))) (files db)"
    by simp_all
  from delete_folders_in_Some [OF two] f1 fl
  show "files db' = filter (\<lambda>x. fl_folderId x \<notin>
             set (map f_id (filter (in_subtree path tid) (folders db)))) (files db)"
    and "map f_id (folders db') = map f_id (filter (\<lambda>f. \<not> in_subtree path tid f) (folders db))"
    and "n = length (filter (in_subtree path tid) (folders db))"
    by simp_all
qed

lemma distinct_key_filter_disjoint:
  "distinct (map k xs) \<Longrightarrow> x \<in> set xs \<Longrightarrow> P x \<Longrightarrow>
   k x \<notin> set (map k (filter (\<lambda>y. \<not> P y) xs))"
  by (induction xs) (auto simp: image_iff)

lemma deleteFolder_handler_Inl:
  "deleteFolder_handler throws db req = (db', Inl e) \<Longrightarrow> db' = db"
  by (auto simp: deleteFolder_handler_def transaction_def split: option.splits if_splits)

lemma deleteFolder_route_Inl:
  "deleteFolder_route throws db req = (db', Inl e) \<Longrightarrow> db' = db"
  by (auto simp: deleteFolder_route_def split: sum.splits dest: deleteFolder_handler_Inl)

lemma deleteFolder_route_Inr:
  "deleteFolder_route throws db req = (db', Inr n) \<Longrightarrow>
   \<exists>F p. folder_by_id db (params_folderId req) (params_tenantId req) = Some F \<and>
       f_parentId F = Some p \<and>
       deleteFolder_tx (f_path F) (params_tenantId req) throws db = Some (db', n)"
  by (auto simp: deleteFolder_route_def deleteFolder_handler_def transaction_def
      split: sum.splits option.splits if_splits)

section \<open>Deleting a subtree\<close>

text \<open>
  Claim C2. Folder ids are unique (the primary key). When the delete route answers with a
  count, the folder addressed by the request is not a root, and it and every folder of its
  tenant whose path is contained in its path are gone: no folder row and no file row of the
  new state carries one of their ids. The count is the number of those folders, it is the
  number of folder rows removed, and it counts the folder itself. When the route answers
  with a failure, whichever step failed, the state is the one before the call.
\<close>

theorem deleteSubtree_all_or_nothing:
  assumes pk: "distinct (map f_id (folders db))"
  shows
  "(deleteFolder_route throws db req = (db', Inr n) \<longrightarrow>
      (\<exists>F p. folder_by_id db (params_folderId req) (params_tenantId req) = Some F \<and>
         f_parentId F = Some p \<and>
         (\<forall>g \<in> set (folders db).
             (g = F \<or> (f_tenantId g = f_tenantId F \<and> contained_in (f_path g) (f_path F))) \<longrightarrow>
               f_id g \<notin> set (map f_id (folders db')) \<and>
               f_id g \<notin> set (map fl_folderId (files db'))) \<and>
         n = length (filter (\<lambda>g. f_tenantId g = f_tenantId F \<and>
                                  contained_in (f_path g) (f_path F)) (folders db)) \<and>
         n + length (folders db') = length (folders db) \<and> 1 \<le> n)) \<and>
   (deleteFolder_route throws db req = (db', Inl e) \<longrightarrow> db' = db)"
proof (intro conjI impI)
  assume "deleteFolder_route throws db req = (db', Inl e)"
  then show "db' = db" by (rule deleteFolder_route_Inl)
next
  assume run: "deleteFolder_route throws db req = (db', Inr n)"
  from deleteFolder_route_Inr [OF run] obtain F p where
    F: "folder_by_id db (params_folderId req) (params_tenantId req) = Some F" and
    p: "f_parentId F = Some p" and
    tx: "deleteFolder_tx (f_path F) (params_tenantId req) throws db = Some (db', n)"
    by blast
  from folder_by_id_SomeD [OF F] have Fin: "F \<in> set (folders db)"
    and Ft: "f_tenantId F = params_tenantId req" by simp_all
  let ?P = "in_subtree (f_path F) (params_tenantId req)"
  have PF: "?P F" using Ft by (simp add: in_subtree_def contained_in_def)
  note facts = deleteFolder_tx_Some [OF tx]
  have gone: "f_id g \<notin> set (map f_id (folders db')) \<and> f_id g \<notin> set (map fl_folderId (files db'))"
    if g: "g \<in> set (folders db)" and Pg: "?P g" for g
  proof
    show "f_id g \<notin> set (map f_id (folders db'))"
      using distinct_key_filter_disjoint [OF pk g, of ?P] Pg facts(2) by simp
    have "f_id g \<in> set (map f_id (filter ?P (folders db)))"
      using g Pg by simp
    then show "f_id g \<notin> set (map fl_folderId (files db'))"
      unfolding facts(1) by auto
  qed
  have n: "n = length (filter (\<lambda>g. f_tenantId g = f_tenantId F \<and>
                                  contained_in (f_path g) (f_path F)) (folders db))"
    using facts(3) Ft by (simp add: in_subtree_fun)
  have len: "n + length (folders db') = length (folders db)"
  proof -
    have "length (folders db') = length (map f_id (folders db'))" by simp
    also have "\<dots> = length (filter (\<lambda>f. \<not> ?P f) (folders db))"
      by (simp add: facts(2))
    finally show ?thesis
      using sum_length_filter_compl [of ?P "folders db"] facts(3) by simp
  qed
  have pos: "1 \<le> n"
  proof -
    have "filter ?P (folders db) \<noteq> []"
      using Fin PF by (auto simp: filter_empty_conv)
    then show ?thesis using facts(3) by (simp add: Suc_le_eq)
  qed
  have all: "\<forall>g \<in> set (folders db).
             (g = F \<or> (f_tenantId g = f_tenantId F \<and> contained_in (f_path g) (f_path F))) \<longrightarrow>
               f_id g \<notin> set (map f_id (folders db')) \<and>
               f_id g \<notin> set (map fl_folderId (files db'))"
  proof (intro ballI impI)
    fix g assume g: "g \<in> set (folders db)"
      and d: "g = F \<or> (f_tenantId g = f_tenantId F \<and> contained_in (f_path g) (f_path F))"
    from d PF Ft have "?P g" by (auto simp: in_subtree_def)
    with g show "f_id g \<notin> set (map f_id (folders db')) \<and>
               f_id g \<notin> set (map fl_folderId (files db'))" by (rule gone)
  qed
  from F p all n len pos
  show "\<exists>F p. folder_by_id db (params_folderId req) (params_tenantId req) = Some F \<and>
         f_parentId F = Some p \<and>
         (\<forall>g \<in> set (folders db).
             (g = F \<or> (f_tenantId g = f_tenantId F \<and> contained_in (f_path g) (f_path F))) \<longrightarrow>
               f_id g \<notin> set (map f_id (folders db')) \<and>
               f_id g \<notin> set (map fl_folderId (files db'))) \<and>
         n = length (filter (\<lambda>g. f_tenantId g = f_tenantId F \<and>
                                  contained_in (f_path g) (f_path F)) (folders db)) \<and>
         n + length (folders db') = length (folders db) \<and> 1 \<le> n"
    by blast
qed

theorem deleteSubtree_all_or_nothing_witness:
  "distinct (map f_id (folders acme)) \<and>
   deleteFolder_route (\<lambda>k. False) acme delete_req = (acme_pruned, Inr 2) \<and>
   map f_id (folders acme_pruned) = [''f-0'', ''g-0''] \<and>
   map fl_folderId (files acme_pruned) = [''g-0''] \<and>
   2 + length (folders acme_pruned) = length (folders acme) \<and>
   deleteFolder_route (\<lambda>k. k = 2) acme delete_req = (acme, Inl StorageFailure)"
  using deleteSubtree_all_or_nothing [of acme "\<lambda>k. False" delete_req acme_pruned 2 StorageFailure]
    deleteSubtree_all_or_nothing [of acme "\<lambda>k. k = 2" delete_req acme 2 StorageFailure]
  by (simp add: eval_defs acme_def delete_req_def acme_pruned_def)

section \<open>The root folder is protected\<close>

text \<open>
  Claim C3. Folder ids are unique. For a folder without a parent, a delete request for that
  folder in its tenant always fails and leaves the state as it was; the handler refuses it
  as the deletion of a root folder, and so does the whole route once the middleware has let
  the actor in.
\<close>

theorem root_delete_refused:
  assumes "distinct (map f_id (folders db))" and "F \<in> set (folders db)"
    and "f_parentId F = None"
    and "params_folderId req = f_id F" and "params_tenantId req = f_tenantId F"
  shows "(\<exists>e. deleteFolder_route throws db req = (db, Inl e)) \<and>
         deleteFolder_handler throws db req = (db, Inl CannotDeleteRoot) \<and>
         ((\<exists>role. requireTenantAccess db (Some TENANT_ADMIN) req = Inr role) \<longrightarrow>
            deleteFolder_route throws db req = (db, Inl CannotDeleteRoot))"
proof -
  from folder_by_id_row [OF assms(1,2)] assms(4,5)
  have "folder_by_id db (params_folderId req) (params_tenantId req) = Some F" by simp
  with assms(3) have h: "deleteFolder_handler throws db req = (db, Inl CannotDeleteRoot)"
    by (simp add: deleteFolder_handler_def)
  then show ?thesis
    by (auto simp: deleteFolder_route_def split: sum.splits)
qed

theorem root_delete_refused_witness:
  "distinct (map f_id (folders acme)) \<and>
   \<lparr>f_id = ''f-0'', f_name = ''root'', f_parentId = None, f_tenantId = ''t-1'',
     f_path = [''t_1'']\<rparr> \<in> set (folders acme) \<and>
   requireTenantAccess acme (Some TENANT_ADMIN) delete_root_req = Inr TENANT_ADMIN \<and>
   deleteFolder_route (\<lambda>k. False) acme delete_root_req = (acme, Inl CannotDeleteRoot)"
  using root_delete_refused [of acme
      "\<lparr>f_id = ''f-0'', f_name = ''root'', f_parentId = None, f_tenantId = ''t-1'',
        f_path = [''t_1'']\<rparr>" delete_root_req "\<lambda>k. False"]
  by (simp add: eval_defs acme_def delete_root_req_def)

section \<open>Two creates racing for one name\<close>

lemma find_None_filter: "find P xs = None \<Longrightarrow> filter P xs = []"
  by (induction xs) (auto split: if_splits)

lemma find_snoc_hit: "P x \<Longrightarrow> find P (xs @ [x]) \<noteq> None"
  by (induction xs) auto

lemma find_snoc_keep: "find P xs = Some y \<Longrightarrow> find P (xs @ [x]) = Some y"
  by (induction xs) (auto split: if_splits)

lemma createFolder_check_same:
  "createFolder_check db req = Inr (nm, pid, tid, pp) \<Longrightarrow>
   filter (\<lambda>f. f_name f = nm \<and> f_parentId f = Some pid \<and> f_tenantId f = tid) (folders db) = []"
  by (auto dest!: createFolder_check_Inr simp: sibling_named_def dest: find_None_filter)

lemma createFolder_insert_after_twin:
  assumes "folders db1 = folders db @
      [\<lparr>f_id = id1, f_name = nm, f_parentId = Some pid, f_tenantId = tid, f_path = p\<rparr>]"
  shows "createFolder_insert id2 db1 (nm, pid, tid, pp) = (db1, Inl StorageFailure)"
  using assms
  by (simp add: createFolder_insert_def insert_folder_def Let_def split: option.splits)

text \<open>
  Claim C4, as amended. Two create requests for the same tenant, parent and name both pass
  the checks on the same state, and the insert of the first succeeds. Then the insert of
  the second is rejected by the storage layer, and its caller gets the handler's general
  storage failure (500), not the duplicate-name failure (409) that the same request gets
  when its check runs after the first insert. One folder of that name exists under the
  parent afterwards.
\<close>

theorem race_loser_storage_failure:
  assumes c1: "createFolder_check db req1 = Inr (nm, pid, tid, pp)"
    and c2: "createFolder_check db req2 = Inr (nm, pid, tid, pp)"
    and i1: "createFolder_insert id1 db (nm, pid, tid, pp) = (db1, Inr r1)"
  shows "createFolder_insert id2 db1 (nm, pid, tid, pp) = (db1, Inl StorageFailure) \<and>
         createFolder_handler id2 db1 req2 = (db1, Inl DuplicateName) \<and>
         length (filter (\<lambda>f. f_name f = nm \<and> f_parentId f = Some pid \<and> f_tenantId f = tid)
                   (folders db1)) = 1"
proof -
  from createFolder_insert_Inr [OF i1] obtain p where
    db1: "db1 = db\<lparr>folders := folders db @
          [\<lparr>f_id = id1, f_name = nm, f_parentId = Some pid, f_tenantId = tid, f_path = p\<rparr>]\<rparr>"
    by blast
  then have f1: "folders db1 = folders db @
          [\<lparr>f_id = id1, f_name = nm, f_parentId = Some pid, f_tenantId = tid, f_path = p\<rparr>]"
    by simp
  have a: "createFolder_insert id2 db1 (nm, pid, tid, pp) = (db1, Inl StorageFailure)"
    using f1 by (rule createFolder_insert_after_twin)
  have c: "length (filter (\<lambda>f. f_name f = nm \<and> f_parentId f = Some pid \<and> f_tenantId f = tid)
                   (folders db1)) = 1"
    using createFolder_check_same [OF c1] f1 by simp
  from createFolder_check_Inr [OF c2] obtain name parent where
    q: "body_name req2 = JString name" "nm = trim name" "nm \<noteq> []"
      "body_parentId req2 = JString pid" "body_tenantId req2 = Some tid"
      "folder_by_id db pid tid = Some parent"
    by blast
  have par: "folder_by_id db1 pid tid \<noteq> None"
    using q(6) f1 by (simp add: folder_by_id_def find_snoc_keep)
  have dup: "sibling_named db1 nm pid tid \<noteq> None"
    using f1 by (simp add: sibling_named_def find_snoc_hit)
  have pidne: "pid \<noteq> []"
    using c2 by (auto simp: createFolder_check_def split: jsval.splits if_splits option.splits)
  have namene: "name \<noteq> []" using q(2,3) by (auto simp: trim_def)
  have b: "createFolder_handler id2 db1 req2 = (db1, Inl DuplicateName)"
    using q par dup pidne namene
    by (auto simp: createFolder_handler_def createFolder_check_def split: option.splits)
  from a b c show ?thesis by simp
qed

theorem race_loser_storage_failure_witness:
  "createFolder_check acme create_req = Inr (''Drafts'', ''f-1'', ''t-1'', ''t_1.f_1'') \<and>
   createFolder_insert ''f-3'' acme (''Drafts'', ''f-1'', ''t-1'', ''t_1.f_1'') =
     (acme_drafts, Inr (Some drafts)) \<and>
   createFolder_insert ''f-4'' acme_drafts (''Drafts'', ''f-1'', ''t-1'', ''t_1.f_1'') =
     (acme_drafts, Inl StorageFailure) \<and>
   createFolder_handler ''f-4'' acme_drafts create_req = (acme_drafts, Inl DuplicateName)"
  using race_loser_storage_failure [of acme create_req "''Drafts''" "''f-1''" "''t-1''"
      "''t_1.f_1''" create_req "''f-3''" acme_drafts "Some drafts" "''f-4''"]
  by (simp add: eval_defs acme_def create_req_def drafts_def acme_drafts_def)

text \<open>
  Claim C4 as stated fails: the second of two racing creates passes the check, its insert
  hits the unique index, and the failure it gets is not the duplicate-name failure.
\<close>

theorem race_loser_duplicate_name_counterexample:
  "createFolder_check acme create_req = Inr (''Drafts'', ''f-1'', ''t-1'', ''t_1.f_1'') \<and>
   createFolder_insert ''f-3'' acme (''Drafts'', ''f-1'', ''t-1'', ''t_1.f_1'') =
     (acme_drafts, Inr (Some drafts)) \<and>
   snd (createFolder_insert ''f-4'' acme_drafts (''Drafts'', ''f-1'', ''t-1'', ''t_1.f_1'')) \<noteq>
     Inl DuplicateName \<and>
   status StorageFailure = 500 \<and> status DuplicateName = 409"
  by (simp add: eval_defs acme_def create_req_def drafts_def acme_drafts_def)

section \<open>The tenant of a create request\<close>

text \<open>
  Claim C5 fails on the create route. The middleware checks the membership of the actor in
  the tenant of the route (\<^verbatim>\<open>req.params.tenantId\<close>); the handler looks the parent up and
  inserts with the tenant of the body (\<^verbatim>\<open>req.body.tenantId\<close>). A member of one tenant who
  is no member of the other creates a folder in the other.
\<close>

theorem create_crosses_tenants:
  "requireTenantAccess two_tenants None cross_req = Inr USER \<and>
   params_tenantId cross_req = tenantA \<and>
   find (\<lambda>m. m_userId m = mallory \<and> m_tenantId m = tenantB) (members two_tenants) = None \<and>
   createFolder_route ''16fd2706-8baf-433b-82eb-8c7fada847da'' two_tenants cross_req =
     (two_tenants\<lparr>folders := folders two_tenants @ [planted]\<rparr>, Inr (Some planted)) \<and>
   f_tenantId planted = tenantB \<and> f_parentId planted = Some rootB"
  by (simp add: eval_defs two_tenants_def cross_req_def planted_def tenantA_def tenantB_def
      rootA_def rootB_def mallory_def bob_def)

section \<open>Renaming a folder\<close>

lemma update_folder_name_Some:
  "update_folder_name db fid nm = Some db' \<Longrightarrow>
   db' = db\<lparr>folders := map (\<lambda>f. if f_id f = fid then f\<lparr>f_name := nm\<rparr> else f) (folders db)\<rparr>"
  by (auto simp: update_folder_name_def Let_def split: if_splits)

lemma renameFolder_handler_Inl: "renameFolder_handler db req = (db', Inl e) \<Longrightarrow> db' = db"
  by (auto simp: renameFolder_handler_def split: jsval.splits if_splits option.splits)

lemma renameFolder_handler_Inr:
  "renameFolder_handler db req = (db', Inr r) \<Longrightarrow>
   \<exists>name. body_name req = JString name \<and>
     update_folder_name db (params_folderId req) (trim name) = Some db'"
  by (auto simp: renameFolder_handler_def split: jsval.splits if_splits option.splits)

lemma renamed_rows_keep:
  "map f_path (map (\<lambda>f. if f_id f = fid then f\<lparr>f_name := nm\<rparr> else f) xs) = map f_path xs"
  "map f_id (map (\<lambda>f. if f_id f = fid then f\<lparr>f_name := nm\<rparr> else f) xs) = map f_id xs"
  "map f_parentId (map (\<lambda>f. if f_id f = fid then f\<lparr>f_name := nm\<rparr> else f) xs) =
     map f_parentId xs"
  "map f_tenantId (map (\<lambda>f. if f_id f = fid then f\<lparr>f_name := nm\<rparr> else f) xs) =
     map f_tenantId xs"
  "filter (\<lambda>f. f_id f \<noteq> fid) (map (\<lambda>f. if f_id f = fid then f\<lparr>f_name := nm\<rparr> else f) xs) =
     filter (\<lambda>f. f_id f \<noteq> fid) xs"
  by (induction xs) auto

text \<open>
  Claim C6. A successful rename rewrites the name of the rows with the id of the request
  and nothing else: every row keeps its id, parent, tenant and path, in particular the
  renamed folder and its descendants keep their paths, the rows with another id are the
  same rows, and the other tables are untouched. A rename that fails changes nothing.
\<close>

theorem rename_changes_name_only:
  "(renameFolder_handler db req = (db', Inr r) \<longrightarrow>
      (\<exists>name. body_name req = JString name \<and>
         db' = db\<lparr>folders :=
                   map (\<lambda>f. if f_id f = params_folderId req then f\<lparr>f_name := trim name\<rparr> else f)
                     (folders db)\<rparr>) \<and>
      map f_path (folders db') = map f_path (folders db) \<and>
      map f_id (folders db') = map f_id (folders db) \<and>
      map f_parentId (folders db') = map f_parentId (folders db) \<and>
      map f_tenantId (folders db') = map f_tenantId (folders db) \<and>
      filter (\<lambda>f. f_id f \<noteq> params_folderId req) (folders db') =
        filter (\<lambda>f. f_id f \<noteq> params_folderId req) (folders db)) \<and>
   (renameFolder_handler db req = (db', Inl e) \<longrightarrow> db' = db)"
proof (intro conjI impI)
  assume "renameFolder_handler db req = (db', Inl e)"
  then show "db' = db" by (rule renameFolder_handler_Inl)
next
  assume run: "renameFolder_handler db req = (db', Inr r)"
  from renameFolder_handler_Inr [OF run] obtain name where
    n: "body_name req = JString name" and
    u: "update_folder_name db (params_folderId req) (trim name) = Some db'"
    by blast
  note eq = update_folder_name_Some [OF u]
  let ?g = "\<lambda>f. if f_id f = params_folderId req then f\<lparr>f_name := trim name\<rparr> else f"
  have fs: "folders db' = map ?g (folders db)" by (subst eq) simp
  show "\<exists>name. body_name req = JString name \<and>
         db' = db\<lparr>folders :=
                   map (\<lambda>f. if f_id f = params_folderId req then f\<lparr>f_name := trim name\<rparr> else f)
                     (folders db)\<rparr>"
    using n eq by blast
  show "map f_path (folders db') = map f_path (folders db)"
    unfolding fs by (rule renamed_rows_keep)
  show "map f_id (folders db') = map f_id (folders db)"
    unfolding fs by (rule renamed_rows_keep)
  show "map f_parentId (folders db') = map f_parentId (folders db)"
    unfolding fs by (rule renamed_rows_keep)
  show "map f_tenantId (folders db') = map f_tenantId (folders db)"
    unfolding fs by (rule renamed_rows_keep)
  show "filter (\<lambda>f. f_id f \<noteq> params_folderId req) (folders db') =
        filter (\<lambda>f. f_id f \<noteq> params_folderId req) (folders db)"
    unfolding fs by (rule renamed_rows_keep)
qed

theorem rename_changes_name_only_witness:
  "renameFolder_handler acme rename_req = (acme_renamed, Inr (Some archive)) \<and>
   map f_path (folders acme_renamed) = map f_path (folders acme) \<and>
   filter (\<lambda>f. f_id f \<noteq> ''f-1'') (folders acme_renamed) =
     filter (\<lambda>f. f_id f \<noteq> ''f-1'') (folders acme) \<and>
   renameFolder_handler acme (rename_req\<lparr>body_name := JString ''  ''\<rparr>) =
     (acme, Inl InvalidInput)"
  using rename_changes_name_only [of acme rename_req acme_renamed "Some archive" InvalidInput]
    rename_changes_name_only [of acme "rename_req\<lparr>body_name := JString ''  ''\<rparr>" acme
      "Some archive" InvalidInput]
  by (simp add: eval_defs acme_def rename_req_def acme_renamed_def archive_def)

section \<open>Listing descendants\<close>

text \<open>
  Claim C8. For a pivot folder that the request finds, the descendants handler answers
  with the rows built from exactly the folders of the pivot's tenant whose path is
  contained in the pivot's path, the pivot's own id left out, each once per stored row;
  the depth of a row is the number of labels of its path minus that of the pivot's path;
  the rows come in ascending order of their paths.
\<close>

theorem listDescendants_exact:
  assumes "folder_by_id db (params_folderId req) (params_tenantId req) = Some pivot"
  shows "\<exists>rows.
     listDescendants_handler db req =
       Inr (map (\<lambda>f. \<lparr>r_id = f_id f, r_name = f_name f, r_path = ltree_out (f_path f),
                       r_depth = int (length (f_path f)) - int (length (f_path pivot))\<rparr>) rows) \<and>
     mset rows =
       mset (filter (\<lambda>f. f_tenantId f = f_tenantId pivot \<and>
                         contained_in (f_path f) (f_path pivot) \<and> f_id f \<noteq> f_id pivot)
               (folders db)) \<and>
     sorted (map f_path rows)"
proof -
  from folder_by_id_SomeD [OF assms] have
    id: "f_id pivot = params_folderId req" and t: "f_tenantId pivot = params_tenantId req"
    by simp_all
  let ?rows = "descendant_rows db (params_folderId req) (params_tenantId req) (f_path pivot)"
  have "listDescendants_handler db req =
       Inr (map (\<lambda>f. \<lparr>r_id = f_id f, r_name = f_name f, r_path = ltree_out (f_path f),
                       r_depth = int (length (f_path f)) - int (length (f_path pivot))\<rparr>) ?rows)"
    using assms by (simp add: listDescendants_handler_def with_depth_def nlevel_def)
  moreover have "mset ?rows =
       mset (filter (\<lambda>f. f_tenantId f = f_tenantId pivot \<and>
                         contained_in (f_path f) (f_path pivot) \<and> f_id f \<noteq> f_id pivot)
               (folders db))"
    unfolding descendant_rows_def id t
    by (simp add: conj_commute conj_left_commute cong: conj_cong)
  moreover have "sorted (map f_path ?rows)"
    unfolding descendant_rows_def by (rule sorted_sort_key)
  ultimately show ?thesis by blast
qed

theorem listDescendants_exact_witness:
  "folder_by_id acme_shuffled (params_folderId list_root_req) (params_tenantId list_root_req) =
     Some acme_root \<and>
   listDescendants_handler acme_shuffled list_root_req = Inr below_root"
  using listDescendants_exact [of acme_shuffled list_root_req acme_root]
  by (simp add: eval_defs acme_def acme_shuffled_def list_root_req_def acme_root_def
      below_root_def)

section \<open>Descendants and ancestors\<close>

lemma distinct_key_unique:
  "distinct (map k xs) \<Longrightarrow> x \<in> set xs \<Longrightarrow> y \<in> set xs \<Longrightarrow> k x = k y \<Longrightarrow> x = y"
  by (auto simp: distinct_map dest: inj_onD)

lemma key_in_filter_iff:
  assumes "distinct (map k xs)" and "x \<in> set xs"
  shows "k x \<in> set (map k (filter P xs)) \<longleftrightarrow> P x"
  using assms distinct_key_unique [OF assms(1)] by (auto simp: image_iff)

lemma set_descendant_rows:
  "set (descendant_rows db fid tid p) =
   {f \<in> set (folders db). contained_in (f_path f) p \<and> f_id f \<noteq> fid \<and> f_tenantId f = tid}"
  by (auto simp: descendant_rows_def)

lemma set_ancestor_rows:
  "set (ancestor_rows db tid p) =
   {f \<in> set (folders db). contains_path (f_path f) p \<and> f_tenantId f = tid}"
  by (auto simp: ancestor_rows_def)

text \<open>
  Claim C7, as amended. Folder ids are unique, and \<open>A\<close> and \<open>B\<close> are folders of one
  tenant. When they are different folders, \<open>B\<close> is listed among the descendants of \<open>A\<close>
  exactly when \<open>A\<close> is listed among the ancestors of \<open>B\<close>. The depth listed for \<open>B\<close>
  below \<open>A\<close> is the number of labels of \<open>B\<close>'s path minus that of \<open>A\<close>'s path; the
  depth listed for \<open>A\<close> above \<open>B\<close> is the number of labels of \<open>A\<close>'s own path. A folder
  is listed among its own ancestors and not among its own descendants.
\<close>

theorem descendants_ancestors_duality:
  assumes pk: "distinct (map f_id (folders db))"
    and A: "A \<in> set (folders db)" and B: "B \<in> set (folders db)"
    and same: "f_tenantId A = f_tenantId B"
    and reqA: "params_folderId reqA = f_id A" "params_tenantId reqA = f_tenantId A"
    and reqB: "params_folderId reqB = f_id B" "params_tenantId reqB = f_tenantId B"
  shows "\<exists>ds as.
     listDescendants_handler db reqA = Inr ds \<and> listAncestors_handler db reqB = Inr as \<and>
     (f_id A \<noteq> f_id B \<longrightarrow> (f_id B \<in> set (map r_id ds)) = (f_id A \<in> set (map r_id as))) \<and>
     (\<forall>d \<in> set ds. r_id d = f_id B \<longrightarrow> r_depth d = nlevel (f_path B) - nlevel (f_path A)) \<and>
     (\<forall>a \<in> set as. r_id a = f_id A \<longrightarrow> r_depth a = nlevel (f_path A)) \<and>
     (f_id A = f_id B \<longrightarrow> f_id A \<in> set (map r_id as) \<and> f_id B \<notin> set (map r_id ds))"
proof -
  let ?drows = "descendant_rows db (f_id A) (f_tenantId A) (f_path A)"
  let ?arows = "ancestor_rows db (f_tenantId B) (f_path B)"
  let ?ds = "map (\<lambda>f. with_depth (nlevel (f_path f) - nlevel (f_path A)) f) ?drows"
  let ?as = "map (\<lambda>f. with_depth (nlevel (f_path f)) f) ?arows"
  have lA: "folder_by_id db (params_folderId reqA) (params_tenantId reqA) = Some A"
    using folder_by_id_row [OF pk A] reqA by simp
  have lB: "folder_by_id db (params_folderId reqB) (params_tenantId reqB) = Some B"
    using folder_by_id_row [OF pk B] reqB by simp
  have ds: "listDescendants_handler db reqA = Inr ?ds"
    using lA reqA by (simp add: listDescendants_handler_def)
  have as: "listAncestors_handler db reqB = Inr ?as"
    using lB reqB by (simp add: listAncestors_handler_def)
  have ids_d: "set (map r_id ?ds) = f_id ` set ?drows"
    by (auto simp: with_depth_def image_iff)
  have ids_a: "set (map r_id ?as) = f_id ` set ?arows"
    by (auto simp: with_depth_def image_iff)
  have inB: "f_id B \<in> set (map r_id ?ds) \<longleftrightarrow>
       contained_in (f_path B) (f_path A) \<and> f_id B \<noteq> f_id A"
  proof -
    have "f_id B \<in> set (map r_id ?ds) \<longleftrightarrow>
       f_id B \<in> set (map f_id (filter (\<lambda>f. contained_in (f_path f) (f_path A) \<and>
           f_id f \<noteq> f_id A \<and> f_tenantId f = f_tenantId A) (folders db)))"
      unfolding ids_d by (simp add: descendant_rows_def)
    also have "\<dots> \<longleftrightarrow> contained_in (f_path B) (f_path A) \<and> f_id B \<noteq> f_id A \<and>
         f_tenantId B = f_tenantId A"
      by (rule key_in_filter_iff [OF pk B])
    finally show ?thesis using same by simp
  qed
  have inA: "f_id A \<in> set (map r_id ?as) \<longleftrightarrow> contains_path (f_path A) (f_path B)"
  proof -
    have "f_id A \<in> set (map r_id ?as) \<longleftrightarrow>
       f_id A \<in> set (map f_id (filter (\<lambda>f. contains_path (f_path f) (f_path B) \<and>
           f_tenantId f = f_tenantId B) (folders db)))"
      unfolding ids_a by (simp add: ancestor_rows_def)
    also have "\<dots> \<longleftrightarrow> contains_path (f_path A) (f_path B) \<and> f_tenantId A = f_tenantId B"
      by (rule key_in_filter_iff [OF pk A])
    finally show ?thesis using same by simp
  qed
  have iff: "f_id A \<noteq> f_id B \<longrightarrow>
      (f_id B \<in> set (map r_id ?ds)) = (f_id A \<in> set (map r_id ?as))"
    unfolding inA inB by (auto simp: contained_in_def contains_path_def)
  have dd: "\<forall>d \<in> set ?ds. r_id d = f_id B \<longrightarrow>
      r_depth d = nlevel (f_path B) - nlevel (f_path A)"
  proof (intro ballI impI)
    fix d assume d: "d \<in> set ?ds" and i: "r_id d = f_id B"
    then obtain f where f: "f \<in> set ?drows"
      and df: "d = with_depth (nlevel (f_path f) - nlevel (f_path A)) f" by auto
    from f have "f \<in> set (folders db)" by (simp add: set_descendant_rows)
    moreover from i df have "f_id f = f_id B" by (simp add: with_depth_def)
    ultimately have "f = B" using distinct_key_unique [OF pk _ B] by blast
    with df show "r_depth d = nlevel (f_path B) - nlevel (f_path A)"
      by (simp add: with_depth_def)
  qed
  have da: "\<forall>a \<in> set ?as. r_id a = f_id A \<longrightarrow> r_depth a = nlevel (f_path A)"
  proof (intro ballI impI)
    fix a assume a: "a \<in> set ?as" and i: "r_id a = f_id A"
    then obtain f where f: "f \<in> set ?arows"
      and af: "a = with_depth (nlevel (f_path f)) f" by auto
    from f have "f \<in> set (folders db)" by (simp add: set_ancestor_rows)
    moreover from i af have "f_id f = f_id A" by (simp add: with_depth_def)
    ultimately have "f = A" using distinct_key_unique [OF pk _ A] by blast
    with af show "r_depth a = nlevel (f_path A)" by (simp add: with_depth_def)
  qed
  have self: "f_id A = f_id B \<longrightarrow>
      f_id A \<in> set (map r_id ?as) \<and> f_id B \<notin> set (map r_id ?ds)"
  proof
    assume e: "f_id A = f_id B"
    then have "A = B" using distinct_key_unique [OF pk A B] by simp
    then show "f_id A \<in> set (map r_id ?as) \<and> f_id B \<notin> set (map r_id ?ds)"
      unfolding inA inB by (simp add: contains_path_def)
  qed
  from ds as iff dd da self show ?thesis by blast
qed

theorem descendants_ancestors_duality_witness:
  "distinct (map f_id (folders acme)) \<and> acme_root \<in> set (folders acme) \<and>
   acme_q1 \<in> set (folders acme) \<and> f_tenantId acme_root = f_tenantId acme_q1 \<and>
   listDescendants_handler acme list_root_req = Inr below_root \<and>
   listAncestors_handler acme list_q1_req = Inr above_q1 \<and>
   f_id acme_q1 \<in> set (map r_id below_root) \<and> f_id acme_root \<in> set (map r_id above_q1)"
  using descendants_ancestors_duality [of acme acme_root acme_q1 list_root_req list_q1_req]
  by (simp add: eval_defs acme_def list_root_req_def list_q1_req_def acme_root_def acme_q1_def
      below_root_def above_q1_def)

text \<open>
  Claim C7 as stated fails. With \<open>A = B\<close> the root folder of Acme is listed among its own
  ancestors and not among its own descendants. Q1 is listed below the root with depth 2,
  and the root is listed above Q1 with depth 1, its own level, which is neither 2 nor -2.
\<close>

theorem descendants_ancestors_duality_counterexample:
  "listDescendants_handler acme list_root_req = Inr below_root \<and>
   listAncestors_handler acme list_root_req = Inr above_root \<and>
   listAncestors_handler acme list_q1_req = Inr above_q1 \<and>
   (''f-0'' \<in> set (map r_id below_root)) \<noteq> (''f-0'' \<in> set (map r_id above_root)) \<and>
   map r_depth (filter (\<lambda>r. r_id r = ''f-2'') below_root) = [2] \<and>
   map r_depth (filter (\<lambda>r. r_id r = ''f-0'') above_q1) = [1]"
  by (simp add: eval_defs acme_def list_root_req_def list_q1_req_def below_root_def
      above_root_def above_q1_def)

section \<open>Creating a tenant\<close>

lemma createTenant_handler_Inl:
  "createTenant_handler tid rid mid throws db req = (db', Inl e) \<Longrightarrow> db' = db"
  by (auto simp: createTenant_handler_def transaction_def
      split: option.splits jsval.splits if_splits)

lemma createTenant_tx_result:
  "createTenant_tx tid rid mid throws uid nm db = Some (db', t) \<Longrightarrow>
   t = find (\<lambda>t. t_id t = tid) (tenants db')"
  by (auto simp: createTenant_tx_def Let_def insert_folder_def split: if_splits option.splits)

lemma find_snoc_new: "\<not> list_ex P xs \<Longrightarrow> P x \<Longrightarrow> find P (xs @ [x]) = Some x"
  by (induction xs) auto

lemma no_folder_of_absent_tenant:
  assumes fk: "list_all (\<lambda>f. list_ex (\<lambda>t. t_id t = f_tenantId f) ts) fs"
    and new: "\<not> list_ex (\<lambda>t. t_id t = tid \<or> Q t) ts"
  shows "filter (\<lambda>f. f_tenantId f = tid \<and> R f) fs = []"
  using assms by (induction fs) (auto simp: list_ex_iff list_all_iff)

text \<open>
  Claim C9. Every folder row references a tenant row (the foreign key on the tenant). When
  the tenant handler succeeds, the new state is the old one with one tenant row, one folder
  row and one membership row added: the folder is the only folder of the new tenant without
  a parent, the tenant row is the only row with the new id, it references that folder as
  its root folder, and it is the row the handler answers with. When the handler fails,
  whichever statement failed, the state is the one before the call. The handler has no
  other outcome, so a tenant without its root folder or a root folder without its tenant
  never leaves it.
\<close>

theorem createTenant_all_or_nothing:
  assumes fk: "list_all (\<lambda>f. list_ex (\<lambda>t. t_id t = f_tenantId f) (tenants db)) (folders db)"
  shows
  "(createTenant_handler tid rid mid throws db req = (db', Inr t) \<longrightarrow>
      (\<exists>root tenant uid.
          filter (\<lambda>f. f_tenantId f = tid \<and> f_parentId f = None) (folders db') = [root] \<and>
          filter (\<lambda>x. t_id x = tid) (tenants db') = [tenant] \<and>
          t_rootFolderId tenant = Some (f_id root) \<and> t = Some tenant \<and>
          folders db' = folders db @ [root] \<and> tenants db' = tenants db @ [tenant] \<and>
          req_user req = Some uid \<and>
          members db' = members db @
            [\<lparr>m_id = mid, m_userId = uid, m_tenantId = tid, m_role = TENANT_ADMIN\<rparr>] \<and>
          files db' = files db \<and> fileVersions db' = fileVersions db)) \<and>
   (createTenant_handler tid rid mid throws db req = (db', Inl e) \<longrightarrow> db' = db)"
proof (intro conjI impI)
  assume "createTenant_handler tid rid mid throws db req = (db', Inl e)"
  then show "db' = db" by (rule createTenant_handler_Inl)
next
  assume run: "createTenant_handler tid rid mid throws db req = (db', Inr t)"
  then obtain uid nm where u: "req_user req = Some uid"
    and tx: "createTenant_tx tid rid mid throws uid nm db = Some (db', t)"
    by (auto simp: createTenant_handler_def transaction_def
        split: option.splits jsval.splits if_splits)
  from createTenant_tx_Some [OF tx] obtain p where
    new: "\<not> list_ex (\<lambda>t. t_id t = tid \<or> t_name t = nm) (tenants db)" and
    fs: "folders db' = folders db @
        [\<lparr>f_id = rid, f_name = ''root'', f_parentId = None, f_tenantId = tid, f_path = p\<rparr>]" and
    ts: "tenants db' = tenants db @ [\<lparr>t_id = tid, t_name = nm, t_rootFolderId = Some rid\<rparr>]" and
    ms: "members db' = members db @
        [\<lparr>m_id = mid, m_userId = uid, m_tenantId = tid, m_role = TENANT_ADMIN\<rparr>]" and
    rest: "files db' = files db" "fileVersions db' = fileVersions db"
    by blast
  let ?root = "\<lparr>f_id = rid, f_name = ''root'', f_parentId = None, f_tenantId = tid, f_path = p\<rparr>"
  let ?tenant = "\<lparr>t_id = tid, t_name = nm, t_rootFolderId = Some rid\<rparr>"
  have old: "filter (\<lambda>f. f_tenantId f = tid \<and> f_parentId f = None) (folders db) = []"
    using fk new by (rule no_folder_of_absent_tenant)
  have one: "filter (\<lambda>f. f_tenantId f = tid \<and> f_parentId f = None) (folders db') = [?root]"
    using old fs by simp
  have not_old: "\<not> list_ex (\<lambda>t. t_id t = tid) (tenants db)"
    using new by (auto simp: list_ex_iff)
  have onet: "filter (\<lambda>x. t_id x = tid) (tenants db') = [?tenant]"
    using not_old ts by (auto simp: list_ex_iff filter_empty_conv)
  have t: "t = Some ?tenant"
    using createTenant_tx_result [OF tx] ts not_old by (simp add: find_snoc_new)
  from one onet t fs ts ms rest u
  show "\<exists>root tenant uid.
          filter (\<lambda>f. f_tenantId f = tid \<and> f_parentId f = None) (folders db') = [root] \<and>
          filter (\<lambda>x. t_id x = tid) (tenants db') = [tenant] \<and>
          t_rootFolderId tenant = Some (f_id root) \<and> t = Some tenant \<and>
          folders db' = folders db @ [root] \<and> tenants db' = tenants db @ [tenant] \<and>
          req_user req = Some uid \<and>
          members db' = members db @
            [\<lparr>m_id = mid, m_userId = uid, m_tenantId = tid, m_role = TENANT_ADMIN\<rparr>] \<and>
          files db' = files db \<and> fileVersions db' = fileVersions db"
    by simp
qed

theorem createTenant_all_or_nothing_witness:
  "list_all (\<lambda>f. list_ex (\<lambda>t. t_id t = f_tenantId f) (tenants acme)) (folders acme) \<and>
   createTenant_handler ''t-3'' ''h-0'' ''m-3'' (\<lambda>k. False) acme tenant_req =
     (with_initech, Inr (Some initech)) \<and>
   filter (\<lambda>f. f_tenantId f = ''t-3'' \<and> f_parentId f = None) (folders with_initech) =
     [initech_root] \<and>
   t_rootFolderId initech = Some (f_id initech_root) \<and>
   createTenant_handler ''t-3'' ''h-0'' ''m-3'' (\<lambda>k. k = 4) acme tenant_req =
     (acme, Inl StorageFailure) \<and>
   createTenant_handler ''t-3'' ''f-1'' ''m-3'' (\<lambda>k. False) acme tenant_req =
     (acme, Inl StorageFailure)"
  using createTenant_all_or_nothing [of acme "''t-3''" "''h-0''" "''m-3''" "\<lambda>k. False"
      tenant_req with_initech "Some initech" StorageFailure]
    createTenant_all_or_nothing [of acme "''t-3''" "''h-0''" "''m-3''" "\<lambda>k. k = 4"
      tenant_req acme "Some initech" StorageFailure]
  by (simp add: eval_defs acme_def tenant_req_def with_initech_def initech_def
      initech_root_def)

section \<open>Sibling names are compared exactly\<close>

lemma differs_in_case_only_nonempty: "differs_in_case_only a b \<Longrightarrow> a \<noteq> []"
  by (auto simp: differs_in_case_only_def)

lemma trim_nonempty: "trim s \<noteq> [] \<Longrightarrow> s \<noteq> []"
  by (auto simp: trim_def)

lemma find_none_list_all: "list_all (\<lambda>x. \<not> P x) xs \<Longrightarrow> find P xs = None"
  by (induction xs) auto

lemma find_none_list_all_weaker:
  "list_all (\<lambda>x. \<not> P x) xs \<Longrightarrow> find (\<lambda>x. P x \<and> Q x) xs = None"
  by (induction xs) auto

lemma find_renamed:
  "distinct (map f_id xs) \<Longrightarrow> g \<in> set xs \<Longrightarrow>
   find (\<lambda>f. f_id f = f_id g) (map (\<lambda>f. if f_id f = f_id g then f\<lparr>f_name := n\<rparr> else f) xs) =
     Some (g\<lparr>f_name := n\<rparr>)"
  by (induction xs) (auto simp: image_iff)

lemma createFolder_succeeds:
  assumes parent: "folder_by_id db pid tid = Some parent"
    and vp: "valid_ltree (f_path parent)" "f_path parent \<noteq> []"
    and req: "body_name req = JString name" "trim name \<noteq> []"
      "body_parentId req = JString pid" "pid \<noteq> []" "body_tenantId req = Some tid"
    and free: "list_all (\<lambda>f. \<not> (f_name f = trim name \<and> f_parentId f = Some pid \<and>
                 f_tenantId f = tid)) (folders db)"
    and fresh: "\<not> list_ex (\<lambda>f. f_id f = newId) (folders db)"
    and label: "valid_label (replace_hyphens newId)"
    and tenant: "list_ex (\<lambda>t. t_id t = tid) (tenants db)"
  shows "createFolder_handler newId db req =
     (db\<lparr>folders := folders db @
          [\<lparr>f_id = newId, f_name = trim name, f_parentId = Some pid, f_tenantId = tid,
            f_path = f_path parent @ [replace_hyphens newId]\<rparr>]\<rparr>,
      Inr (Some \<lparr>f_id = newId, f_name = trim name, f_parentId = Some pid, f_tenantId = tid,
            f_path = f_path parent @ [replace_hyphens newId]\<rparr>))"
proof -
  let ?row = "\<lparr>f_id = newId, f_name = trim name, f_parentId = Some pid, f_tenantId = tid,
            f_path = f_path parent @ [replace_hyphens newId]\<rparr>"
  have nm: "name \<noteq> []" using req(2) by (rule trim_nonempty)
  have sib: "sibling_named db (trim name) pid tid = None"
    unfolding sibling_named_def using free by (rule find_none_list_all)
  have chk: "createFolder_check db req =
      Inr (trim name, pid, tid, ltree_out (f_path parent))"
    using req nm parent sib by (simp add: createFolder_check_def)
  have cast: "ltree_in (ltree_out (f_path parent) @ ''.'' @ replace_hyphens newId) =
      Some (f_path parent @ [replace_hyphens newId])"
    using ltree_in_child [OF vp label] by simp
  have pin: "list_ex (\<lambda>f. f_id f = pid) (folders db @ [?row])"
    using folder_by_id_SomeD [OF parent] by (auto simp: list_ex_iff)
  have nodup: "\<not> list_ex (\<lambda>f. f_parentId f = Some pid \<and> f_name f = trim name \<and>
                            f_tenantId f = tid) (folders db)"
    using free by (auto simp: list_ex_iff list_all_iff)
  have ins: "insert_folder db ?row = Some (db\<lparr>folders := folders db @ [?row]\<rparr>)"
    using fresh nodup pin tenant by (simp add: insert_folder_def)
  have fnd: "find (\<lambda>f. f_id f = newId) (folders db @ [?row]) = Some ?row"
    using fresh by (simp add: find_snoc_new)
  show ?thesis
    using chk cast ins fnd by (simp add: createFolder_handler_def createFolder_insert_def)
qed

lemma renameFolder_succeeds:
  assumes pk: "distinct (map f_id (folders db))"
    and g: "g \<in> set (folders db)" "f_parentId g = Some pid" "f_tenantId g = tid"
    and req: "params_folderId req = f_id g" "params_tenantId req = tid"
      "body_name req = JString name" "trim name \<noteq> []"
    and free: "list_all (\<lambda>f. \<not> (f_name f = trim name \<and> f_parentId f = Some pid \<and>
                 f_tenantId f = tid)) (folders db)"
  shows "renameFolder_handler db req =
     (db\<lparr>folders := map (\<lambda>f. if f_id f = f_id g then f\<lparr>f_name := trim name\<rparr> else f)
                       (folders db)\<rparr>,
      Inr (Some (g\<lparr>f_name := trim name\<rparr>)))"
proof -
  have nm: "name \<noteq> []" using req(4) by (rule trim_nonempty)
  have look: "folder_by_id db (params_folderId req) (params_tenantId req) = Some g"
    using folder_by_id_row [OF pk g(1)] g(3) req(1,2) by simp
  have sib: "sibling_named_except db (trim name) pid tid (f_id g) = None"
    unfolding sibling_named_except_def
    using find_none_list_all_weaker [OF free, of "\<lambda>f. f_id f \<noteq> f_id g"]
    by (simp add: conj_assoc)
  have hit: "filter (\<lambda>f. f_id f = f_id g) (folders db) \<noteq> []"
    using g(1) by (auto simp: filter_empty_conv)
  have uniq: "\<not> list_ex (\<lambda>r. f_parentId r \<noteq> None \<and>
                   list_ex (\<lambda>s. f_parentId s = f_parentId r \<and> f_name s = trim name \<and>
                                 f_tenantId s = f_tenantId r)
                     (filter (\<lambda>f. f_id f \<noteq> f_id g) (folders db)))
               (filter (\<lambda>f. f_id f = f_id g) (folders db))"
  proof
    assume "list_ex (\<lambda>r. f_parentId r \<noteq> None \<and>
                   list_ex (\<lambda>s. f_parentId s = f_parentId r \<and> f_name s = trim name \<and>
                                 f_tenantId s = f_tenantId r)
                     (filter (\<lambda>f. f_id f \<noteq> f_id g) (folders db)))
               (filter (\<lambda>f. f_id f = f_id g) (folders db))"
    then obtain r s where r: "r \<in> set (folders db)" "f_id r = f_id g"
      and s: "s \<in> set (folders db)" "f_parentId s = f_parentId r" "f_name s = trim name"
        "f_tenantId s = f_tenantId r"
      by (auto simp: list_ex_iff)
    from distinct_key_unique [OF pk r(1) g(1) r(2)] have "r = g" .
    with s g have "f_name s = trim name \<and> f_parentId s = Some pid \<and> f_tenantId s = tid"
      by simp
    with free s(1) show False by (auto simp: list_all_iff)
  qed
  have upd: "update_folder_name db (f_id g) (trim name) =
      Some (db\<lparr>folders := map (\<lambda>f. if f_id f = f_id g then f\<lparr>f_name := trim name\<rparr> else f)
                       (folders db)\<rparr>)"
    using hit uniq by (simp add: update_folder_name_def Let_def)
  show ?thesis
    using nm req look g sib upd find_renamed [OF pk g(1)]
    by (simp add: renameFolder_handler_def)
qed

text \<open>
  Claim C10. Folder ids are unique. A parent holds a child whose name differs only in
  letter case from the trimmed name of the requests, and no folder under that parent has
  exactly that name. Then creating a folder of that name under the parent succeeds (for a
  fresh id that gives a label, a parent with a stored non-empty path and an existing
  tenant), and renaming a folder under that parent to that name succeeds: neither request
  is refused as a duplicate name.
\<close>

theorem sibling_names_case_sensitive:
  assumes pk: "distinct (map f_id (folders db))"
    and child: "c \<in> set (folders db)" "f_parentId c = Some pid" "f_tenantId c = tid"
    and diff: "differs_in_case_only (trim name) (f_name c)"
    and free: "list_all (\<lambda>f. \<not> (f_name f = trim name \<and> f_parentId f = Some pid \<and>
                 f_tenantId f = tid)) (folders db)"
    and parent: "folder_by_id db pid tid = Some parent"
      "valid_ltree (f_path parent)" "f_path parent \<noteq> []"
    and creq: "body_name creq = JString name" "body_parentId creq = JString pid" "pid \<noteq> []"
      "body_tenantId creq = Some tid"
    and fresh: "\<not> list_ex (\<lambda>f. f_id f = newId) (folders db)"
      "valid_label (replace_hyphens newId)"
    and tenant: "list_ex (\<lambda>t. t_id t = tid) (tenants db)"
    and g: "g \<in> set (folders db)" "f_parentId g = Some pid" "f_tenantId g = tid"
    and rreq: "params_folderId rreq = f_id g" "params_tenantId rreq = tid"
      "body_name rreq = JString name"
  shows "createFolder_handler newId db creq =
     (db\<lparr>folders := folders db @
          [\<lparr>f_id = newId, f_name = trim name, f_parentId = Some pid, f_tenantId = tid,
            f_path = f_path parent @ [replace_hyphens newId]\<rparr>]\<rparr>,
      Inr (Some \<lparr>f_id = newId, f_name = trim name, f_parentId = Some pid, f_tenantId = tid,
            f_path = f_path parent @ [replace_hyphens newId]\<rparr>)) \<and>
   renameFolder_handler db rreq =
     (db\<lparr>folders := map (\<lambda>f. if f_id f = f_id g then f\<lparr>f_name := trim name\<rparr> else f)
                       (folders db)\<rparr>,
      Inr (Some (g\<lparr>f_name := trim name\<rparr>)))"
proof
  have ne: "trim name \<noteq> []" using diff by (rule differs_in_case_only_nonempty)
  show "createFolder_handler newId db creq =
     (db\<lparr>folders := folders db @
          [\<lparr>f_id = newId, f_name = trim name, f_parentId = Some pid, f_tenantId = tid,
            f_path = f_path parent @ [replace_hyphens newId]\<rparr>]\<rparr>,
      Inr (Some \<lparr>f_id = newId, f_name = trim name, f_parentId = Some pid, f_tenantId = tid,
            f_path = f_path parent @ [replace_hyphens newId]\<rparr>))"
    using parent creq(1) ne creq(2-4) free fresh tenant by (rule createFolder_succeeds)
  show "renameFolder_handler db rreq =
     (db\<lparr>folders := map (\<lambda>f. if f_id f = f_id g then f\<lparr>f_name := trim name\<rparr> else f)
                       (folders db)\<rparr>,
      Inr (Some (g\<lparr>f_name := trim name\<rparr>)))"
    using pk g rreq ne free by (rule renameFolder_succeeds)
qed

theorem sibling_names_case_sensitive_witness:
  "distinct (map f_id (folders acme_drafts)) \<and> acme_q1 \<in> set (folders acme_drafts) \<and>
   differs_in_case_only (trim ''q1'') (f_name acme_q1) \<and>
   folder_by_id acme_drafts ''f-1'' ''t-1'' = Some acme_reports \<and>
   drafts \<in> set (folders acme_drafts) \<and>
   createFolder_handler ''f-4'' acme_drafts lower_create_req =
     (acme_drafts\<lparr>folders := folders acme_drafts @ [lower_q1]\<rparr>, Inr (Some lower_q1)) \<and>
   renameFolder_handler acme_drafts lower_rename_req =
     (acme_drafts\<lparr>folders := folders acme @ [drafts\<lparr>f_name := ''q1''\<rparr>]\<rparr>,
      Inr (Some (drafts\<lparr>f_name := ''q1''\<rparr>)))"
  using sibling_names_case_sensitive [of acme_drafts acme_q1 "''f-1''" "''t-1''" "''q1''"
      acme_reports lower_create_req "''f-4''" drafts lower_rename_req]
  by (simp add: eval_defs acme_def acme_drafts_def acme_q1_def drafts_def acme_reports_def
      lower_create_req_def lower_rename_req_def lower_q1_def differs_in_case_only_def
      lower_char_def)

end
